theory Spec2Isabelle
  imports Complex_Main "HOL-Library.List_Lexorder" "HOL-Library.Char_ord" "HOL-Library.AList"
begin

section \<open>Strings and the formatting of integers\<close>

text \<open>
  Python strings are modelled as byte strings in UTF-8. The order on \<^typ>\<open>string\<close> is the
  lexicographic order on bytes, which is the order of SQLite's default collation and, on
  UTF-8, the code point order of Python's \<^verbatim>\<open>sorted\<close>. The three non-ASCII symbols of
  the report lines are written out as their UTF-8 bytes.
\<close>

definition digit_char :: "nat \<Rightarrow> char" where
  "digit_char d =
     (if d = 0 then CHR ''0'' else if d = 1 then CHR ''1'' else if d = 2 then CHR ''2''
      else if d = 3 then CHR ''3'' else if d = 4 then CHR ''4'' else if d = 5 then CHR ''5''
      else if d = 6 then CHR ''6'' else if d = 7 then CHR ''7'' else if d = 8 then CHR ''8''
      else CHR ''9'')"

fun str_nat :: "nat \<Rightarrow> string" where
  "str_nat n =
     (if n < 10 then [digit_char n] else str_nat (n div 10) @ [digit_char (n mod 10)])"

declare str_nat.simps [simp del]

text \<open>What an f-string prints for an \<^verbatim>\<open>int\<close>.\<close>

definition str_int :: "int \<Rightarrow> string" where
  "str_int i = (if i < 0 then CHR ''-'' # str_nat (nat (- i)) else str_nat (nat i))"

definition bullet :: string where
  "bullet = [CHR 0xE2, CHR 0x80, CHR 0xA2]"

definition arrow :: string where
  "arrow = [CHR 0xE2, CHR 0x86, CHR 0x92]"

definition em_dash :: string where
  "em_dash = [CHR 0xE2, CHR 0x80, CHR 0x94]"

text \<open>\<^verbatim>\<open>sep.join(parts)\<close>.\<close>

fun join :: "string \<Rightarrow> string list \<Rightarrow> string" where
  "join sep [] = []"
| "join sep [x] = x"
| "join sep (x # y # ys) = x @ sep @ join sep (y # ys)"

text \<open>\<^verbatim>\<open>x or 0\<close> on a nullable integer column and \<^verbatim>\<open>x or ""\<close> on a nullable text column.\<close>

definition or_zero :: "int option \<Rightarrow> int" where
  "or_zero v = (case v of None \<Rightarrow> 0 | Some i \<Rightarrow> if i = 0 then 0 else i)"

definition or_empty :: "string option \<Rightarrow> string" where
  "or_empty v = (case v of None \<Rightarrow> [] | Some s \<Rightarrow> if s = [] then [] else s)"

text \<open>\<^verbatim>\<open>w or 'No weapon'\<close> on a string.\<close>

definition or_no_weapon :: "string \<Rightarrow> string" where
  "or_no_weapon w = (if w = [] then ''No weapon'' else w)"

section \<open>The persisted tables\<close>

text \<open>
  One row of \<^verbatim>\<open>character_stats_snapshots\<close>, with the columns the comparison reads. The
  three key columns are \<^verbatim>\<open>NOT NULL\<close>; the others are nullable. A table is the list of
  its rows in insertion order (the order of the autoincremented id).
\<close>

record snap_row =
  col_taken_at_utc :: string
  col_account_name :: string
  col_character_name :: string
  col_level :: "int option"
  col_friendship :: "int option"
  col_constellation :: "int option"
  col_weapon_name :: "string option"
  col_weapon_level :: "int option"
  col_weapon_refinement :: "int option"

text \<open>One row of \<^verbatim>\<open>character_summary_runs\<close>.\<close>

record run_row =
  run_account_name :: string
  period_label :: string
  last_run_utc :: string

record db =
  character_stats_snapshots :: "snap_row list"
  character_summary_runs :: "run_row list"

record account =
  name :: string
  slack_mention :: "string option"

section \<open>Loading one snapshot batch\<close>

text \<open>The value stored per character by \<^verbatim>\<open>_load_character_batch\<close>.\<close>

record char_stats =
  level :: int
  friendship :: int
  constellation :: int
  weapon_name :: string
  weapon_level :: int
  weapon_refinement :: int

text \<open>
  A Python \<^verbatim>\<open>dict\<close> keyed by character name: an association list in insertion order in
  which an assignment to a key already present replaces its value in place
  (\<^const>\<open>AList.update\<close>). \<^verbatim>\<open>d.get(k)\<close> is \<^const>\<open>map_of\<close>, \<^verbatim>\<open>len(d)\<close> is the length.
\<close>

type_synonym batch = "(string \<times> char_stats) list"

definition stats_of_row :: "snap_row \<Rightarrow> char_stats" where
  "stats_of_row r =
     \<lparr> level = or_zero (col_level r),
       friendship = or_zero (col_friendship r),
       constellation = or_zero (col_constellation r),
       weapon_name = or_empty (col_weapon_name r),
       weapon_level = or_zero (col_weapon_level r),
       weapon_refinement = or_zero (col_weapon_refinement r) \<rparr>"

definition load_character_batch :: "snap_row list \<Rightarrow> string \<Rightarrow> string \<Rightarrow> batch" where
  "load_character_batch rows account_name taken_at_utc =
     foldl (\<lambda>batch r. AList.update (col_character_name r) (stats_of_row r) batch) []
       (filter (\<lambda>r. col_account_name r = account_name \<and> col_taken_at_utc r = taken_at_utc) rows)"

section \<open>The comparison loop\<close>

record changes =
  new_chars :: "string list"
  level_ups :: "string list"
  friendship_ups :: "string list"
  constellation_changes :: "string list"
  weapon_changes :: "string list"
  weapon_level_changes :: "string list"
  weapon_refinement_changes :: "string list"

definition no_changes :: changes where
  "no_changes =
     \<lparr> new_chars = [], level_ups = [], friendship_ups = [], constellation_changes = [],
       weapon_changes = [], weapon_level_changes = [], weapon_refinement_changes = [] \<rparr>"

definition new_char_line :: "string \<Rightarrow> char_stats \<Rightarrow> string" where
  "new_char_line nm new =
     bullet @ '' '' @ nm @ '': Lv'' @ str_int (level new) @ '' C'' @ str_int (constellation new)
       @ '' F'' @ str_int (friendship new) @ '' '' @ em_dash @ '' ''
       @ or_no_weapon (weapon_name new)
       @ '' (Lv'' @ str_int (weapon_level new) @ '' R'' @ str_int (weapon_refinement new) @ '')''"

definition level_up_line :: "string \<Rightarrow> char_stats \<Rightarrow> char_stats \<Rightarrow> string" where
  "level_up_line nm old new =
     bullet @ '' '' @ nm @ '': Lv'' @ str_int (level old) @ '' '' @ arrow @ '' Lv''
       @ str_int (level new)"

definition friendship_line :: "string \<Rightarrow> char_stats \<Rightarrow> char_stats \<Rightarrow> string" where
  "friendship_line nm old new =
     bullet @ '' '' @ nm @ '': F'' @ str_int (friendship old) @ '' '' @ arrow @ '' F''
       @ str_int (friendship new)"

definition constellation_line :: "string \<Rightarrow> char_stats \<Rightarrow> char_stats \<Rightarrow> string" where
  "constellation_line nm old new =
     bullet @ '' '' @ nm @ '': C'' @ str_int (constellation old) @ '' '' @ arrow @ '' C''
       @ str_int (constellation new)"

definition weapon_change_line :: "string \<Rightarrow> char_stats \<Rightarrow> char_stats \<Rightarrow> string" where
  "weapon_change_line nm old new =
     bullet @ '' '' @ nm @ '': '' @ or_no_weapon (weapon_name old) @ '' '' @ arrow @ '' ''
       @ or_no_weapon (weapon_name new)
       @ '' (Lv'' @ str_int (weapon_level new) @ '' R'' @ str_int (weapon_refinement new) @ '')''"

definition weapon_level_line :: "string \<Rightarrow> char_stats \<Rightarrow> char_stats \<Rightarrow> string" where
  "weapon_level_line nm old new =
     bullet @ '' '' @ nm @ '' ('' @ or_no_weapon (weapon_name new) @ ''): Lv''
       @ str_int (weapon_level old) @ '' '' @ arrow @ '' Lv'' @ str_int (weapon_level new)"

definition refinement_line :: "string \<Rightarrow> char_stats \<Rightarrow> char_stats \<Rightarrow> string" where
  "refinement_line nm old new =
     bullet @ '' '' @ nm @ '' ('' @ or_no_weapon (weapon_name new) @ ''): R''
       @ str_int (weapon_refinement old) @ '' '' @ arrow @ '' R''
       @ str_int (weapon_refinement new)"

text \<open>
  The field comparison of a character present in both batches. It is the same text in
  \<^verbatim>\<open>maybe_post_character_diff\<close> and in \<^verbatim>\<open>post_period_summary\<close>; the lists are the
  accumulators the loop appends to.
\<close>

definition compare_fields :: "string \<Rightarrow> char_stats \<Rightarrow> char_stats \<Rightarrow> changes \<Rightarrow> changes" where
  "compare_fields nm old new cs =
     (let cs1 = (if level new > level old
                 then cs\<lparr>level_ups := level_ups cs @ [level_up_line nm old new]\<rparr> else cs);
          cs2 = (if friendship new > friendship old
                 then cs1\<lparr>friendship_ups := friendship_ups cs1 @ [friendship_line nm old new]\<rparr>
                 else cs1);
          cs3 = (if constellation new \<noteq> constellation old
                 then cs2\<lparr>constellation_changes :=
                            constellation_changes cs2 @ [constellation_line nm old new]\<rparr>
                 else cs2)
      in if weapon_name new \<noteq> weapon_name old
         then cs3\<lparr>weapon_changes := weapon_changes cs3 @ [weapon_change_line nm old new]\<rparr>
         else
           (let cs4 = (if weapon_level new > weapon_level old
                       then cs3\<lparr>weapon_level_changes :=
                                  weapon_level_changes cs3 @ [weapon_level_line nm old new]\<rparr>
                       else cs3)
            in if weapon_refinement new \<noteq> weapon_refinement old
               then cs4\<lparr>weapon_refinement_changes :=
                          weapon_refinement_changes cs4 @ [refinement_line nm old new]\<rparr>
               else cs4))"

text \<open>\<^verbatim>\<open>sorted(set(prev_batch.keys()) | set(curr_batch.keys()))\<close>.\<close>

definition all_names :: "batch \<Rightarrow> batch \<Rightarrow> string list" where
  "all_names prev_batch curr_batch = sort (remdups (map fst prev_batch @ map fst curr_batch))"

text \<open>One iteration of the loop of \<^verbatim>\<open>maybe_post_character_diff\<close>.\<close>

definition diff_step :: "batch \<Rightarrow> batch \<Rightarrow> changes \<Rightarrow> string \<Rightarrow> changes" where
  "diff_step prev_batch curr_batch cs nm =
     (case (map_of prev_batch nm, map_of curr_batch nm) of
        (None, Some new) \<Rightarrow> cs\<lparr>new_chars := new_chars cs @ [new_char_line nm new]\<rparr>
      | (_, None) \<Rightarrow> cs
      | (Some old, Some new) \<Rightarrow> compare_fields nm old new cs)"

definition character_diff :: "batch \<Rightarrow> batch \<Rightarrow> changes" where
  "character_diff prev_batch curr_batch =
     foldl (diff_step prev_batch curr_batch) no_changes (all_names prev_batch curr_batch)"

text \<open>
  One iteration of the loop of \<^verbatim>\<open>post_period_summary\<close>: a character absent from the
  first snapshot of the window is reported as new only when its name is not in
  \<^verbatim>\<open>existed_before\<close>.
\<close>

definition period_step :: "string set \<Rightarrow> batch \<Rightarrow> batch \<Rightarrow> changes \<Rightarrow> string \<Rightarrow> changes" where
  "period_step existed_before prev_batch curr_batch cs nm =
     (case map_of curr_batch nm of
        None \<Rightarrow> cs
      | Some new \<Rightarrow>
          (case map_of prev_batch nm of
             None \<Rightarrow>
               (if nm \<notin> existed_before
                then cs\<lparr>new_chars := new_chars cs @ [new_char_line nm new]\<rparr> else cs)
           | Some old \<Rightarrow> compare_fields nm old new cs))"

definition period_diff :: "string set \<Rightarrow> batch \<Rightarrow> batch \<Rightarrow> changes" where
  "period_diff existed_before prev_batch curr_batch =
     foldl (period_step existed_before prev_batch curr_batch) no_changes
       (all_names prev_batch curr_batch)"

text \<open>The totals line, computed the same way in both functions.\<close>

definition total_line :: "batch \<Rightarrow> batch \<Rightarrow> string option" where
  "total_line prev_batch curr_batch =
     (let prev_total = int (length prev_batch); curr_total = int (length curr_batch)
      in if prev_total \<noteq> curr_total
         then (let delta = curr_total - prev_total;
                   sign = (if delta > 0 then ''+'' else '''')
               in Some (bullet @ '' Characters: '' @ str_int prev_total @ '' '' @ arrow @ '' ''
                          @ str_int curr_total @ '' ('' @ sign @ str_int delta @ '')''))
         else None)"

text \<open>The test that suppresses the message: every list and the totals line are falsy.\<close>

definition nothing_to_report :: "changes \<Rightarrow> string option \<Rightarrow> bool" where
  "nothing_to_report cs tline =
     (new_chars cs = [] \<and> level_ups cs = [] \<and> friendship_ups cs = []
      \<and> constellation_changes cs = [] \<and> weapon_changes cs = []
      \<and> weapon_level_changes cs = [] \<and> weapon_refinement_changes cs = []
      \<and> (case tline of None \<Rightarrow> True | Some s \<Rightarrow> s = []))"

section \<open>Library functions\<close>

text \<open>
  An instant is an \<^typ>\<open>int\<close>: microseconds since the epoch. The instants of the model are
  those of \<^verbatim>\<open>datetime\<close> values, between the years 1 and 9999. A \<^verbatim>\<open>tzinfo\<close> object is
  the function that gives the UTC offset of its zone, in microseconds, at an instant. A
  \<^verbatim>\<open>datetime\<close> value is its wall-clock reading, in microseconds since 1970-01-01
  00:00:00 of its own calendar, and its \<^verbatim>\<open>tzinfo\<close> (\<open>None\<close> for a naive value).
\<close>

type_synonym tzinfo = "int \<Rightarrow> int"

record pydatetime =
  wall_clock :: int
  tzinfo :: "tzinfo option"

text \<open>
  The functions of Python's standard library that the code calls on strings and dates.
  The model takes them as parameters, so every theorem holds whatever they compute:
  \<^verbatim>\<open>str.strip()\<close>, \<^verbatim>\<open>int(s)\<close> (\<open>None\<close> when it raises), \<^verbatim>\<open>datetime.fromisoformat\<close>
  (\<open>None\<close> when it raises), \<^verbatim>\<open>strftime("%Y-%m-%d %H:%M:%S")\<close> of a UTC instant, and
  \<^verbatim>\<open>strptime(s, "%Y-%m-%d %H:%M:%S").replace(tzinfo=utc)\<close> (\<open>None\<close> when it raises).
\<close>

record pylib =
  strip :: "string \<Rightarrow> string"
  py_int :: "string \<Rightarrow> int option"
  fromisoformat :: "string \<Rightarrow> pydatetime option"
  strftime :: "int \<Rightarrow> string"
  strptime :: "string \<Rightarrow> int option"

datatype py_error = TypeError | ValueError | OverflowError

section \<open>Floats\<close>

text \<open>
  A finite Python \<^verbatim>\<open>float\<close> is a double: the pair \<open>(m, q)\<close> stands for \<open>m * 2 ^ q\<close>.
\<close>

type_synonym double = "int \<times> int"

text \<open>\<^verbatim>\<open>n.bit_length()\<close> of a positive integer.\<close>

function bit_length :: "int \<Rightarrow> nat" where
  "bit_length n = (if n \<le> 0 then 0 else Suc (bit_length (n div 2)))"
  by pat_completeness auto
termination
  by (relation "measure nat") auto

declare bit_length.simps [simp del]

text \<open>
  The double nearest to the quotient \<open>n / d\<close> of two integers, \<open>d\<close> positive, ties going to
  the even mantissa: what \<^verbatim>\<open>n / d\<close> computes on two \<^verbatim>\<open>int\<close>s and, on the numerator and
  the denominator of a quotient of doubles, what the division of floats computes. With
  \<open>a = \<bar>n\<bar>\<close>, the exponent \<open>e\<close> is such that \<open>2 ^ e \<le> a / d < 2 ^ (e + 1)\<close>; the mantissa has
  53 bits, and the exponent of its last bit is not below that of the subnormal numbers.
  Quotients beyond the largest double do not arise from the instants of the model.
\<close>

definition nearest_double :: "int \<Rightarrow> int \<Rightarrow> double" where
  "nearest_double n d =
     (if n = 0 then (0, 0)
      else (let a = \<bar>n\<bar>;
                k = int (bit_length a) - int (bit_length d);
                e = (if (if k \<ge> 0 then d * 2 ^ nat k \<le> a else d \<le> a * 2 ^ nat (- k))
                     then k else k - 1);
                q = max (e - 52) (- 1074);
                num = (if q \<ge> 0 then a else a * 2 ^ nat (- q));
                den = (if q \<ge> 0 then d * 2 ^ nat q else d);
                f = num div den;
                r = num mod den;
                m = (if 2 * r < den then f else if 2 * r > den then f + 1
                     else if even f then f else f + 1)
            in (sgn n * m, q)))"

text \<open>\<^verbatim>\<open>x / c\<close> for a float \<open>x\<close> and a float \<open>c\<close> whose value is a positive integer.\<close>

definition double_div :: "double \<Rightarrow> int \<Rightarrow> double" where
  "double_div x c =
     (case x of
        (m, q) \<Rightarrow>
          if q \<ge> 0 then nearest_double (m * 2 ^ nat q) c
          else nearest_double m (c * 2 ^ nat (- q)))"

text \<open>\<^verbatim>\<open>x < i\<close> for a float and an \<^verbatim>\<open>int\<close>, which Python compares exactly.\<close>

definition double_less_int :: "double \<Rightarrow> int \<Rightarrow> bool" where
  "double_less_int x i =
     (case x of
        (m, q) \<Rightarrow> if q \<ge> 0 then m * 2 ^ nat q < i else m < i * 2 ^ nat (- q))"

text \<open>\<^verbatim>\<open>int(x)\<close> on a finite float: truncation towards zero.\<close>

definition int_of_double :: "double \<Rightarrow> int" where
  "int_of_double x =
     (case x of
        (m, q) \<Rightarrow> if q \<ge> 0 then m * 2 ^ nat q else sgn m * (\<bar>m\<bar> div 2 ^ nat (- q)))"

text \<open>\<^verbatim>\<open>td.total_seconds()\<close> of a \<^verbatim>\<open>timedelta\<close> of \<open>us\<close> microseconds: \<^verbatim>\<open>us / 10**6\<close>.\<close>

definition total_seconds :: "int \<Rightarrow> double" where
  "total_seconds us = nearest_double us 1000000"

section \<open>The recovery-time resolver and the timer formatter\<close>

datatype pyfloat = Finite double | Infinity | NaN

datatype pyvalue =
    PNone
  | PInt int
  | PFloat pyfloat
  | PStr string
  | PDatetime pydatetime
  | POther

text \<open>\<^verbatim>\<open>int(td.total_seconds())\<close> of a difference of \<open>us\<close> microseconds.\<close>

definition whole_seconds :: "int \<Rightarrow> int" where
  "whole_seconds us = int_of_double (total_seconds us)"

text \<open>
  \<^verbatim>\<open>now = datetime.now(target.tzinfo or timezone.utc); target - now\<close>. The value \<open>now\<close> is
  always aware. For a naive target Python refuses the subtraction. For an aware target
  \<open>now\<close> carries the target's own \<^verbatim>\<open>tzinfo\<close> object: its wall clock is the current
  instant moved by the offset of the zone at that instant, and Python subtracts the two
  wall clocks without looking at the offsets.
\<close>

definition seconds_from_now :: "int \<Rightarrow> pydatetime \<Rightarrow> py_error + int" where
  "seconds_from_now now target =
     (case tzinfo target of
        None \<Rightarrow> Inl TypeError
      | Some tz \<Rightarrow> Inr (whole_seconds (wall_clock target - (now + tz now))))"

text \<open>\<^verbatim>\<open>s.replace("Z", "+00:00")\<close>.\<close>

definition replace_Z :: "string \<Rightarrow> string" where
  "replace_Z s = concat (map (\<lambda>ch. if ch = CHR ''Z'' then ''+00:00'' else [ch]) s)"

definition parse_recovery_seconds :: "pylib \<Rightarrow> int \<Rightarrow> pyvalue \<Rightarrow> py_error + int option" where
  "parse_recovery_seconds lib now v =
     (case v of
        PNone \<Rightarrow> Inr None
      | PInt i \<Rightarrow> Inr (Some i)
      | PFloat x \<Rightarrow>
          (case x of
             Finite x \<Rightarrow> Inr (Some (int_of_double x))
           | Infinity \<Rightarrow> Inl OverflowError
           | NaN \<Rightarrow> Inl ValueError)
      | PStr str \<Rightarrow>
          (let s = strip lib str
           in if s = [] then Inr None
              else (case py_int lib s of
                      Some i \<Rightarrow> Inr (Some i)
                    | None \<Rightarrow>
                        (case fromisoformat lib (replace_Z s) of
                           None \<Rightarrow> Inr None
                         | Some target_dt \<Rightarrow>
                             (case seconds_from_now now target_dt of
                                Inl e \<Rightarrow> Inr None
                              | Inr secs \<Rightarrow> Inr (Some secs)))))
      | PDatetime d \<Rightarrow>
          (case seconds_from_now now d of
             Inl e \<Rightarrow> Inl e
           | Inr secs \<Rightarrow> Inr (Some secs))
      | POther \<Rightarrow> Inr None)"

text \<open>
  \<^verbatim>\<open>_format_timer\<close>, on the integers and \<^verbatim>\<open>None\<close> that its callers pass. On these no
  operation of the body raises, so the handler that returns \<^verbatim>\<open>"Unknown"\<close> is not reached.
\<close>

definition format_timer :: "int option \<Rightarrow> int option \<Rightarrow> int option \<Rightarrow> string" where
  "format_timer seconds current maximum =
     (if (case (maximum, current) of (Some m, Some c) \<Rightarrow> c \<ge> m | _ \<Rightarrow> False) then ''Full''
      else (case seconds of
              None \<Rightarrow> ''Unknown''
            | Some s \<Rightarrow>
                if s \<le> 0 then ''Full''
                else (let hours = s div 3600;
                          minutes = (s mod 3600) div 60;
                          parts = (if hours \<noteq> 0 then [str_int hours @ ''h''] else []);
                          parts' = (if minutes \<noteq> 0 \<or> parts = []
                                    then parts @ [str_int minutes @ ''m''] else parts)
                      in ''in '' @ concat parts')))"

section \<open>Posting to the notification sink\<close>

text \<open>
  What \<^verbatim>\<open>requests.post\<close> does with a payload is a parameter of the model: it returns a
  response (\<^verbatim>\<open>resp.ok\<close>, \<^verbatim>\<open>resp.status_code\<close>, \<^verbatim>\<open>resp.text\<close>) or raises.
\<close>

datatype post_outcome = Responded bool int string | Raised string

datatype warning = Webhook_responded int string | Post_failed string

text \<open>What a call leaves behind: the payloads it tried to post and the warnings it logged.\<close>

record effects =
  posts :: "string list"
  warnings :: "warning list"

definition no_effects :: effects where
  "no_effects = \<lparr> posts = [], warnings = [] \<rparr>"

text \<open>The \<^verbatim>\<open>try: requests.post(...) except Exception\<close> block that ends both functions.\<close>

definition post_payload :: "(string \<Rightarrow> post_outcome) \<Rightarrow> string \<Rightarrow> effects" where
  "post_payload slack payload =
     \<lparr> posts = [payload],
       warnings = (case slack payload of
                     Responded ok status_code text \<Rightarrow>
                       if \<not> ok then [Webhook_responded status_code text] else []
                   | Raised e \<Rightarrow> [Post_failed e]) \<rparr>"

section \<open>Rendering the report\<close>

definition mention_prefix :: "account \<Rightarrow> string" where
  "mention_prefix acc =
     (case slack_mention acc of
        None \<Rightarrow> []
      | Some m \<Rightarrow> if m = [] then [] else m @ '' '')"

text \<open>One section: a title with the number of entries, the entries, an empty line.\<close>

definition section_lines :: "string \<Rightarrow> string list \<Rightarrow> string list" where
  "section_lines title entries =
     (if entries = [] then []
      else [''*'' @ title @ '' ('' @ str_int (int (length entries)) @ '')*''] @ entries @ [[]])"

definition report_lines :: "string \<Rightarrow> string \<Rightarrow> changes \<Rightarrow> string option \<Rightarrow> string list" where
  "report_lines header subtitle cs tline =
     [header, subtitle, []]
       @ section_lines ''New Characters'' (new_chars cs)
       @ section_lines ''Level Ups'' (level_ups cs)
       @ section_lines ''Friendship Gains'' (friendship_ups cs)
       @ section_lines ''Constellation Changes'' (constellation_changes cs)
       @ section_lines ''Weapon Changes'' (weapon_changes cs)
       @ section_lines ''Weapon Level Ups'' (weapon_level_changes cs)
       @ section_lines ''Refinement Changes'' (weapon_refinement_changes cs)
       @ (case tline of
            None \<Rightarrow> []
          | Some t \<Rightarrow> if t = [] then [] else [''*Totals*'', t])"

definition payload_text :: "pylib \<Rightarrow> string list \<Rightarrow> string" where
  "payload_text lib lines = strip lib (join [CHR 0x0A] lines)"

section \<open>The latest-snapshot diff\<close>

text \<open>
  \<^verbatim>\<open>SELECT DISTINCT taken_at_utc ... WHERE account_name = ? AND taken_at_utc < ?
  ORDER BY taken_at_utc DESC LIMIT 1\<close>.
\<close>

definition previous_snapshot_time :: "snap_row list \<Rightarrow> string \<Rightarrow> string \<Rightarrow> string option" where
  "previous_snapshot_time rows account_name snapshot_time_utc =
     (case rev (sort (remdups (map col_taken_at_utc
             (filter (\<lambda>r. col_account_name r = account_name
                        \<and> col_taken_at_utc r < snapshot_time_utc) rows)))) of
        [] \<Rightarrow> None
      | t # _ \<Rightarrow> Some t)"

definition maybe_post_character_diff ::
  "pylib \<Rightarrow> (string \<Rightarrow> post_outcome) \<Rightarrow> db \<Rightarrow> account \<Rightarrow> string \<Rightarrow> effects" where
  "maybe_post_character_diff lib slack d acc snapshot_time_utc =
     (case previous_snapshot_time (character_stats_snapshots d) (name acc) snapshot_time_utc of
        None \<Rightarrow> no_effects
      | Some prev_time_utc \<Rightarrow>
          (let prev_batch = load_character_batch (character_stats_snapshots d) (name acc)
                              prev_time_utc;
               curr_batch = load_character_batch (character_stats_snapshots d) (name acc)
                              snapshot_time_utc;
               cs = character_diff prev_batch curr_batch;
               tline = total_line prev_batch curr_batch
           in if nothing_to_report cs tline then no_effects
              else post_payload slack (payload_text lib (report_lines
                     (mention_prefix acc @ ''*Genshin Character Updates '' @ em_dash @ '' ''
                        @ name acc @ ''*'')
                     (''_Snapshot: '' @ prev_time_utc @ '' '' @ arrow @ '' '' @ snapshot_time_utc
                        @ ''_'')
                     cs tline))))"

section \<open>The period summary\<close>

text \<open>\<^verbatim>\<open>SELECT last_run_utc ... ORDER BY id DESC LIMIT 1\<close>: the row inserted last.\<close>

definition last_run_row :: "run_row list \<Rightarrow> string \<Rightarrow> string \<Rightarrow> string option" where
  "last_run_row runs account_name label =
     (case rev (filter (\<lambda>r. run_account_name r = account_name \<and> period_label r = label) runs) of
        [] \<Rightarrow> None
      | r # _ \<Rightarrow> Some (last_run_utc r))"

text \<open>
  \<^verbatim>\<open>(now_utc - last_run_dt).total_seconds() / 86400.0\<close>: two divisions, each rounded to
  the nearest double.
\<close>

definition delta_days :: "int \<Rightarrow> int \<Rightarrow> double" where
  "delta_days now_utc last_run_dt = double_div (total_seconds (now_utc - last_run_dt)) 86400"

text \<open>
  The test that returns early. A text that \<^verbatim>\<open>strptime\<close> rejects falls into the handler,
  which passes, and the evaluation goes on.
\<close>

definition not_due :: "pylib \<Rightarrow> int \<Rightarrow> string option \<Rightarrow> int \<Rightarrow> bool" where
  "not_due lib now_utc row days_back =
     (case row of
        None \<Rightarrow> False
      | Some text \<Rightarrow>
          (case strptime lib text of
             None \<Rightarrow> False
           | Some last_run_dt \<Rightarrow>
               double_less_int (delta_days now_utc last_run_dt) (days_back - 1)))"

text \<open>
  \<^verbatim>\<open>now_utc - timedelta(days=days_back)\<close>. Python raises \<^verbatim>\<open>OverflowError\<close> when the
  number of days is beyond a \<^verbatim>\<open>timedelta\<close> or the result is outside the years 1 to 9999.
\<close>

definition datetime_min :: int where
  "datetime_min = - 62135596800000000"

definition datetime_max :: int where
  "datetime_max = 253402300799999999"

definition minus_days :: "int \<Rightarrow> int \<Rightarrow> py_error + int" where
  "minus_days now_utc days_back =
     (let r = now_utc - days_back * 86400000000
      in if \<bar>days_back\<bar> \<le> 999999999 \<and> datetime_min \<le> r \<and> r \<le> datetime_max then Inr r
         else Inl OverflowError)"

text \<open>
  \<^verbatim>\<open>SELECT DISTINCT taken_at_utc ... WHERE account_name = ? AND taken_at_utc >= ? AND
  taken_at_utc <= ? ORDER BY taken_at_utc ASC\<close>.
\<close>

definition snapshot_times_in_window ::
  "snap_row list \<Rightarrow> string \<Rightarrow> string \<Rightarrow> string \<Rightarrow> string list" where
  "snapshot_times_in_window rows account_name window_start_str window_end_str =
     sort (remdups (map col_taken_at_utc
       (filter (\<lambda>r. col_account_name r = account_name \<and> col_taken_at_utc r \<ge> window_start_str
                  \<and> col_taken_at_utc r \<le> window_end_str) rows)))"

text \<open>
  \<^verbatim>\<open>SELECT DISTINCT character_name ... WHERE account_name = ? AND taken_at_utc < ?\<close>, as
  the set \<^verbatim>\<open>existed_before\<close>.
\<close>

definition names_before :: "snap_row list \<Rightarrow> string \<Rightarrow> string \<Rightarrow> string set" where
  "names_before rows account_name start_time =
     set (map col_character_name
       (filter (\<lambda>r. col_account_name r = account_name \<and> col_taken_at_utc r < start_time) rows))"

text \<open>\<^verbatim>\<open>INSERT INTO character_summary_runs ... VALUES (?, ?, ?)\<close> and the commit.\<close>

definition record_run :: "db \<Rightarrow> string \<Rightarrow> string \<Rightarrow> string \<Rightarrow> db" where
  "record_run d account_name label now_str =
     d\<lparr>character_summary_runs := character_summary_runs d
          @ [\<lparr> run_account_name = account_name, period_label = label, last_run_utc = now_str \<rparr>]\<rparr>"

text \<open>
  \<^verbatim>\<open>post_period_summary\<close> at the instant \<open>now_utc\<close>. The result is the exception that
  leaves the function, or the database and the effects it leaves behind.
\<close>

definition post_period_summary ::
  "pylib \<Rightarrow> (string \<Rightarrow> post_outcome) \<Rightarrow> int \<Rightarrow> db \<Rightarrow> account \<Rightarrow> string \<Rightarrow> int
     \<Rightarrow> py_error + (db \<times> effects)" where
  "post_period_summary lib slack now_utc d acc label days_back =
     (let now_str = strftime lib now_utc;
          row = last_run_row (character_summary_runs d) (name acc) label
      in if not_due lib now_utc row days_back then Inr (d, no_effects)
         else
           (case minus_days now_utc days_back of
              Inl e \<Rightarrow> Inl e
            | Inr window_start_dt \<Rightarrow>
                (let window_start_str = strftime lib window_start_dt;
                     window_end_str = now_str;
                     snap_rows = snapshot_times_in_window (character_stats_snapshots d) (name acc)
                                   window_start_str window_end_str
                 in if length snap_rows < 2
                    then Inr (record_run d (name acc) label now_str, no_effects)
                    else
                      (let start_time = hd snap_rows;
                           end_time = last snap_rows;
                           prev_batch = load_character_batch (character_stats_snapshots d)
                                          (name acc) start_time;
                           curr_batch = load_character_batch (character_stats_snapshots d)
                                          (name acc) end_time;
                           existed_before = names_before (character_stats_snapshots d) (name acc)
                                              start_time;
                           cs = period_diff existed_before prev_batch curr_batch;
                           tline = total_line prev_batch curr_batch
                       in if nothing_to_report cs tline
                          then Inr (record_run d (name acc) label now_str, no_effects)
                          else Inr (record_run d (name acc) label now_str,
                                 post_payload slack (payload_text lib (report_lines
                                   (mention_prefix acc @ ''*Genshin Character Summary ''
                                      @ em_dash @ '' '' @ name acc @ ''*'')
                                   (''_Period: '' @ label @ '' ('' @ start_time @ '' '' @ arrow
                                      @ '' '' @ end_time @ '')_'')
                                   cs tline)))))))"

section \<open>An instance of the library functions\<close>

text \<open>
  A concrete instance, used to run the model on examples: the proleptic Gregorian
  calendar for years of four digits, ASCII white space, decimal integers with an optional
  sign, and ISO timestamps of the form \<^verbatim>\<open>YYYY-MM-DD?HH:MM:SS\<close> with an optional
  \<^verbatim>\<open>+HH:MM\<close> or \<^verbatim>\<open>-HH:MM\<close> offset, which gives a zone of that fixed offset.
\<close>

definition civil_from_days :: "int \<Rightarrow> int \<times> int \<times> int" where
  "civil_from_days days =
     (let z = days + 719468;
          era = z div 146097;
          doe = z - era * 146097;
          yoe = (doe - doe div 1460 + doe div 36524 - doe div 146096) div 365;
          doy = doe - (365 * yoe + yoe div 4 - yoe div 100);
          mp = (5 * doy + 2) div 153;
          d = doy - (153 * mp + 2) div 5 + 1;
          m = (if mp < 10 then mp + 3 else mp - 9);
          y = yoe + era * 400 + (if m \<le> 2 then 1 else 0)
      in (y, m, d))"

definition days_from_civil :: "int \<Rightarrow> int \<Rightarrow> int \<Rightarrow> int" where
  "days_from_civil y m d =
     (let y' = (if m \<le> 2 then y - 1 else y);
          era = y' div 400;
          yoe = y' - era * 400;
          doy = (153 * (if m > 2 then m - 3 else m + 9) + 2) div 5 + d - 1;
          doe = yoe * 365 + yoe div 4 - yoe div 100 + doy
      in era * 146097 + doe - 719468)"

definition pad2 :: "int \<Rightarrow> string" where
  "pad2 i = (if i < 10 then ''0'' @ str_int i else str_int i)"

definition pad4 :: "int \<Rightarrow> string" where
  "pad4 i = (if i < 10 then ''000'' @ str_int i else if i < 100 then ''00'' @ str_int i
             else if i < 1000 then ''0'' @ str_int i else str_int i)"

definition example_strftime :: "int \<Rightarrow> string" where
  "example_strftime us =
     (let secs = us div 1000000;
          days = secs div 86400;
          rem = secs mod 86400
      in case civil_from_days days of
           (y, m, d) \<Rightarrow>
             pad4 y @ ''-'' @ pad2 m @ ''-'' @ pad2 d @ '' '' @ pad2 (rem div 3600) @ '':''
               @ pad2 ((rem mod 3600) div 60) @ '':'' @ pad2 (rem mod 60))"

definition digit_value :: "char \<Rightarrow> int option" where
  "digit_value ch =
     (let n = of_char ch :: nat in if 48 \<le> n \<and> n \<le> 57 then Some (int n - 48) else None)"

fun digits_value :: "int \<Rightarrow> string \<Rightarrow> int option" where
  "digits_value acc [] = Some acc"
| "digits_value acc (ch # rest) =
     (case digit_value ch of None \<Rightarrow> None | Some v \<Rightarrow> digits_value (10 * acc + v) rest)"

definition number :: "string \<Rightarrow> int option" where
  "number s = (if s = [] then None else digits_value 0 s)"

definition example_py_int :: "string \<Rightarrow> int option" where
  "example_py_int s =
     (case s of
        [] \<Rightarrow> None
      | ch # rest \<Rightarrow>
          if ch = CHR ''-'' then map_option uminus (number rest)
          else if ch = CHR ''+'' then number rest
          else number s)"

definition is_space :: "char \<Rightarrow> bool" where
  "is_space ch = (ch = CHR '' '' \<or> ch = CHR 0x09 \<or> ch = CHR 0x0A \<or> ch = CHR 0x0B
                  \<or> ch = CHR 0x0C \<or> ch = CHR 0x0D)"

definition example_strip :: "string \<Rightarrow> string" where
  "example_strip s = rev (dropWhile is_space (rev (dropWhile is_space s)))"

text \<open>The text \<^verbatim>\<open>YYYY-MM-DD?HH:MM:SS\<close> as microseconds of wall-clock time.\<close>

definition wall_clock_of :: "string \<Rightarrow> int option" where
  "wall_clock_of s =
     (if length s \<noteq> 19 \<or> s ! 4 \<noteq> CHR ''-'' \<or> s ! 7 \<noteq> CHR ''-'' \<or> s ! 13 \<noteq> CHR '':''
         \<or> s ! 16 \<noteq> CHR '':'' then None
      else case (number (take 4 s), number (take 2 (drop 5 s)), number (take 2 (drop 8 s)),
                 number (take 2 (drop 11 s)), number (take 2 (drop 14 s)),
                 number (take 2 (drop 17 s))) of
             (Some y, Some m, Some d, Some hh, Some mm, Some ss) \<Rightarrow>
               if 1 \<le> y \<and> 1 \<le> m \<and> m \<le> 12 \<and> 1 \<le> d \<and> hh < 24 \<and> mm < 60 \<and> ss < 60
                  \<and> civil_from_days (days_from_civil y m d) = (y, m, d)
               then Some ((days_from_civil y m d * 86400 + hh * 3600 + mm * 60 + ss) * 1000000)
               else None
           | _ \<Rightarrow> None)"

definition example_strptime :: "string \<Rightarrow> int option" where
  "example_strptime s = (if length s = 19 \<and> s ! 10 = CHR '' '' then wall_clock_of s else None)"

definition offset_of :: "string \<Rightarrow> int option" where
  "offset_of s =
     (if length s \<noteq> 6 \<or> s ! 3 \<noteq> CHR '':'' then None
      else case (number (take 2 (drop 1 s)), number (take 2 (drop 4 s))) of
             (Some hh, Some mm) \<Rightarrow>
               if s ! 0 = CHR ''+'' then Some ((hh * 3600 + mm * 60) * 1000000)
               else if s ! 0 = CHR ''-'' then Some (- ((hh * 3600 + mm * 60) * 1000000))
               else None
           | _ \<Rightarrow> None)"

definition example_fromisoformat :: "string \<Rightarrow> pydatetime option" where
  "example_fromisoformat s =
     (case wall_clock_of (take 19 s) of
        None \<Rightarrow> None
      | Some w \<Rightarrow>
          if length s = 19 then Some \<lparr> wall_clock = w, tzinfo = None \<rparr>
          else (case offset_of (drop 19 s) of
                  None \<Rightarrow> None
                | Some off \<Rightarrow> Some \<lparr> wall_clock = w, tzinfo = Some (\<lambda>instant. off) \<rparr>))"

definition example_lib :: pylib where
  "example_lib =
     \<lparr> strip = example_strip, py_int = example_py_int, fromisoformat = example_fromisoformat,
       strftime = example_strftime, strptime = example_strptime \<rparr>"

section \<open>Specification-side combinators and example data\<close>

text \<open>
  The entries a category collects, in the order of the loop, from the characters present
  in both batches: \<open>f\<close> gives the entries of one character.
\<close>

definition in_both ::
  "batch \<Rightarrow> batch \<Rightarrow> (string \<Rightarrow> char_stats \<Rightarrow> char_stats \<Rightarrow> string list) \<Rightarrow> string list" where
  "in_both prev_batch curr_batch f =
     concat (map (\<lambda>nm. case (map_of prev_batch nm, map_of curr_batch nm) of
                         (Some old, Some new) \<Rightarrow> f nm old new
                       | _ \<Rightarrow> [])
               (all_names prev_batch curr_batch))"

text \<open>
  The entries a category collects, in the order of the loop, from the characters present
  in the target batch only.
\<close>

definition only_in_target ::
  "batch \<Rightarrow> batch \<Rightarrow> (string \<Rightarrow> char_stats \<Rightarrow> string list) \<Rightarrow> string list" where
  "only_in_target prev_batch curr_batch f =
     concat (map (\<lambda>nm. case (map_of prev_batch nm, map_of curr_batch nm) of
                         (None, Some new) \<Rightarrow> f nm new
                       | _ \<Rightarrow> [])
               (all_names prev_batch curr_batch))"

text \<open>The scenario of the specification: one character at two snapshot times.\<close>

definition ayaka_before :: batch where
  "ayaka_before =
     [(''Kamisato Ayaka'', \<lparr> level = 80, friendship = 6, constellation = 0,
         weapon_name = ''Mistsplitter'', weapon_level = 90, weapon_refinement = 1 \<rparr>)]"

definition ayaka_after :: batch where
  "ayaka_after =
     [(''Kamisato Ayaka'', \<lparr> level = 90, friendship = 6, constellation = 1,
         weapon_name = ''Mistsplitter'', weapon_level = 90, weapon_refinement = 2 \<rparr>)]"

text \<open>A weapon swap and, on another character, a weapon levelled up.\<close>

definition weapon_swap_before :: batch where
  "weapon_swap_before =
     [(''Diluc'', \<lparr> level = 80, friendship = 10, constellation = 1,
         weapon_name = ''Prototype Archaic'', weapon_level = 70, weapon_refinement = 5 \<rparr>),
      (''Amber'', \<lparr> level = 40, friendship = 3, constellation = 0,
         weapon_name = ''Sharpshooter's Oath'', weapon_level = 20, weapon_refinement = 1 \<rparr>)]"

definition weapon_swap_after :: batch where
  "weapon_swap_after =
     [(''Diluc'', \<lparr> level = 80, friendship = 10, constellation = 1,
         weapon_name = ''Wolf's Gravestone'', weapon_level = 90, weapon_refinement = 1 \<rparr>),
      (''Amber'', \<lparr> level = 40, friendship = 3, constellation = 0,
         weapon_name = ''Sharpshooter's Oath'', weapon_level = 40, weapon_refinement = 1 \<rparr>)]"

text \<open>A small snapshot table: one character on 20 December, and two later captures.\<close>

definition example_rows :: "snap_row list" where
  "example_rows =
     [\<lparr> col_taken_at_utc = ''2023-12-20 08:00:00'', col_account_name = ''main'',
        col_character_name = ''Amber'', col_level = Some 20, col_friendship = Some 1,
        col_constellation = Some 0, col_weapon_name = Some ''Hunter's Bow'',
        col_weapon_level = Some 1, col_weapon_refinement = Some 1 \<rparr>,
      \<lparr> col_taken_at_utc = ''2024-01-02 08:00:00'', col_account_name = ''main'',
        col_character_name = ''Lisa'', col_level = Some 40, col_friendship = Some 2,
        col_constellation = None, col_weapon_name = None,
        col_weapon_level = None, col_weapon_refinement = None \<rparr>,
      \<lparr> col_taken_at_utc = ''2024-01-07 08:00:00'', col_account_name = ''main'',
        col_character_name = ''Lisa'', col_level = Some 40, col_friendship = Some 2,
        col_constellation = None, col_weapon_name = None,
        col_weapon_level = None, col_weapon_refinement = None \<rparr>,
      \<lparr> col_taken_at_utc = ''2024-01-07 08:00:00'', col_account_name = ''main'',
        col_character_name = ''Amber'', col_level = Some 20, col_friendship = Some 1,
        col_constellation = Some 0, col_weapon_name = Some ''Hunter's Bow'',
        col_weapon_level = Some 1, col_weapon_refinement = Some 1 \<rparr>]"

definition example_account :: account where
  "example_account = \<lparr> name = ''main'', slack_mention = None \<rparr>"

definition other_account :: account where
  "other_account = \<lparr> name = ''alt'', slack_mention = Some ''<@U0123ABCD>'' \<rparr>"

definition example_db :: db where
  "example_db = \<lparr> character_stats_snapshots = example_rows, character_summary_runs = [] \<rparr>"

definition recent_run_db :: db where
  "recent_run_db =
     \<lparr> character_stats_snapshots = example_rows,
       character_summary_runs =
         [\<lparr> run_account_name = ''main'', period_label = ''Last 7 days'',
            last_run_utc = ''2024-01-03 00:00:00'' \<rparr>] \<rparr>"

definition slack_ok :: "string \<Rightarrow> post_outcome" where
  "slack_ok payload = Responded True 200 ''ok''"

definition slack_down :: "string \<Rightarrow> post_outcome" where
  "slack_down payload = Raised ''connection refused''"

definition slack_rejects :: "string \<Rightarrow> post_outcome" where
  "slack_rejects payload = Responded False 404 ''no_service''"

definition jan_8 :: int where
  "jan_8 = 1704672000000000"


text \<open>Two captures of an unchanged roster.\<close>

definition steady_db :: db where
  "steady_db =
     \<lparr> character_stats_snapshots =
         [\<lparr> col_taken_at_utc = ''2024-01-02 08:00:00'', col_account_name = ''main'',
            col_character_name = ''Lisa'', col_level = Some 40, col_friendship = Some 2,
            col_constellation = None, col_weapon_name = None,
            col_weapon_level = None, col_weapon_refinement = None \<rparr>,
          \<lparr> col_taken_at_utc = ''2024-01-03 08:00:00'', col_account_name = ''main'',
            col_character_name = ''Lisa'', col_level = Some 40, col_friendship = Some 2,
            col_constellation = Some 0, col_weapon_name = Some [],
            col_weapon_level = Some 0, col_weapon_refinement = None \<rparr>],
       character_summary_runs = [] \<rparr>"

text \<open>Two later instants: 9 and 20 January 2024, 00:00:00 UTC.\<close>

definition jan_9 :: int where
  "jan_9 = 1704758400000000"

definition jan_20 :: int where
  "jan_20 = 1705708800000000"

text \<open>
  A zone with daylight saving time: one hour ahead of UTC, two hours between 31 March and
  27 October 2024, 01:00 UTC.
\<close>

definition summer_time_zone :: tzinfo where
  "summer_time_zone instant =
     (if 1711846800000000 \<le> instant \<and> instant < 1729990800000000 then 7200000000
      else 3600000000)"

section \<open>Floats and time differences on examples\<close>

text \<open>
  One microsecond short of 250001 days the two rounded divisions give 250001 exactly, and
  one microsecond short of 198841 days they give less than 198841.
\<close>

lemma delta_days_one_microsecond_short:
  "\<not> double_less_int (delta_days 21600086399999999 0) 250001
   \<and> double_less_int (delta_days 17179862399999999 0) 198841"
  by code_simp

lemma whole_seconds_examples:
  "whole_seconds 3599999999 = 3599 \<and> whole_seconds (- 3599999999) = - 3599
   \<and> whole_seconds 251698233599999999 = 251698233600"
  by code_simp

text \<open>
  On 8 January 2024, 00:00 UTC, a target of 8 July 2024, 12:00 on the wall clock of the zone
  is 15764400 seconds of wall clock away, one hour more than the time that will elapse.
\<close>

lemma seconds_from_now_wall_clock:
  "seconds_from_now jan_8 \<lparr> wall_clock = 1720440000000000, tzinfo = Some summer_time_zone \<rparr>
     = Inr 15764400"
  by code_simp

section \<open>Properties of the comparison loop\<close>

lemma foldl_entries:
  assumes "\<And>cs n. sel (step cs n) = sel cs @ g n"
  shows "sel (foldl step cs ns) = sel cs @ concat (map g ns)"
  using assms by (induction ns arbitrary: cs) simp_all

lemma compare_fields_new_chars:
  "new_chars (compare_fields nm old new cs) = new_chars cs"
  by (simp add: compare_fields_def Let_def)

lemma compare_fields_level_ups:
  "level_ups (compare_fields nm old new cs) =
     level_ups cs @ (if level new > level old then [level_up_line nm old new] else [])"
  by (simp add: compare_fields_def Let_def)

lemma compare_fields_friendship_ups:
  "friendship_ups (compare_fields nm old new cs) =
     friendship_ups cs @ (if friendship new > friendship old then [friendship_line nm old new] else [])"
  by (simp add: compare_fields_def Let_def)

lemma compare_fields_constellation_changes:
  "constellation_changes (compare_fields nm old new cs) =
     constellation_changes cs
       @ (if constellation new \<noteq> constellation old then [constellation_line nm old new] else [])"
  by (simp add: compare_fields_def Let_def)

lemma compare_fields_weapon_changes:
  "weapon_changes (compare_fields nm old new cs) =
     weapon_changes cs
       @ (if weapon_name new \<noteq> weapon_name old then [weapon_change_line nm old new] else [])"
  by (simp add: compare_fields_def Let_def)

lemma compare_fields_weapon_level_changes:
  "weapon_level_changes (compare_fields nm old new cs) =
     weapon_level_changes cs
       @ (if weapon_name new = weapon_name old \<and> weapon_level new > weapon_level old
          then [weapon_level_line nm old new] else [])"
  by (simp add: compare_fields_def Let_def)

lemma compare_fields_weapon_refinement_changes:
  "weapon_refinement_changes (compare_fields nm old new cs) =
     weapon_refinement_changes cs
       @ (if weapon_name new = weapon_name old \<and> weapon_refinement new \<noteq> weapon_refinement old
          then [refinement_line nm old new] else [])"
  by (simp add: compare_fields_def Let_def)

lemmas compare_fields_sel =
  compare_fields_new_chars compare_fields_level_ups compare_fields_friendship_ups
  compare_fields_constellation_changes compare_fields_weapon_changes
  compare_fields_weapon_level_changes compare_fields_weapon_refinement_changes

lemma diff_step_in_both:
  assumes "\<And>nm old new cs. sel (compare_fields nm old new cs) = sel cs @ f nm old new"
    and "\<And>cs v. sel (cs\<lparr>new_chars := v\<rparr>) = sel cs"
  shows "sel (diff_step p c cs nm) = sel cs @
     (case (map_of p nm, map_of c nm) of (Some old, Some new) \<Rightarrow> f nm old new | _ \<Rightarrow> [])"
  by (simp add: diff_step_def assms split: option.splits)

lemma period_step_in_both:
  assumes "\<And>nm old new cs. sel (compare_fields nm old new cs) = sel cs @ f nm old new"
    and "\<And>cs v. sel (cs\<lparr>new_chars := v\<rparr>) = sel cs"
  shows "sel (period_step eb p c cs nm) = sel cs @
     (case (map_of p nm, map_of c nm) of (Some old, Some new) \<Rightarrow> f nm old new | _ \<Rightarrow> [])"
  by (simp add: period_step_def assms split: option.splits)

lemma character_diff_in_both:
  assumes "\<And>nm old new cs. sel (compare_fields nm old new cs) = sel cs @ f nm old new"
    and "\<And>cs v. sel (cs\<lparr>new_chars := v\<rparr>) = sel cs"
    and "sel no_changes = []"
  shows "sel (character_diff p c) = in_both p c f"
  unfolding character_diff_def in_both_def
  by (subst foldl_entries [where sel = sel, OF diff_step_in_both [where sel = sel and f = f]])
     (simp_all add: assms)

lemma period_diff_in_both:
  assumes "\<And>nm old new cs. sel (compare_fields nm old new cs) = sel cs @ f nm old new"
    and "\<And>cs v. sel (cs\<lparr>new_chars := v\<rparr>) = sel cs"
    and "sel no_changes = []"
  shows "sel (period_diff eb p c) = in_both p c f"
  unfolding period_diff_def in_both_def
  by (subst foldl_entries [where sel = sel, OF period_step_in_both [where sel = sel and f = f]])
     (simp_all add: assms)

text \<open>
  Claim C5. In the latest-snapshot diff and in the period summary alike, the level-up
  category holds one entry for each character present in both batches whose level is
  strictly greater in the target, the friendship category one entry for each whose
  friendship is strictly greater, and the constellation category one entry for each whose
  constellation differs, in either direction; a character with an equal or smaller level
  or friendship contributes nothing to these categories.
\<close>

theorem field_entries_level_friendship_constellation:
  "level_ups (character_diff p c) =
     in_both p c (\<lambda>nm old new. if level new > level old then [level_up_line nm old new] else [])
   \<and> friendship_ups (character_diff p c) =
     in_both p c (\<lambda>nm old new.
       if friendship new > friendship old then [friendship_line nm old new] else [])
   \<and> constellation_changes (character_diff p c) =
     in_both p c (\<lambda>nm old new.
       if constellation new \<noteq> constellation old then [constellation_line nm old new] else [])
   \<and> level_ups (period_diff eb p c) =
     in_both p c (\<lambda>nm old new. if level new > level old then [level_up_line nm old new] else [])
   \<and> friendship_ups (period_diff eb p c) =
     in_both p c (\<lambda>nm old new.
       if friendship new > friendship old then [friendship_line nm old new] else [])
   \<and> constellation_changes (period_diff eb p c) =
     in_both p c (\<lambda>nm old new.
       if constellation new \<noteq> constellation old then [constellation_line nm old new] else [])"
proof (intro conjI)
  show "level_ups (character_diff p c) =
     in_both p c (\<lambda>nm old new. if level new > level old then [level_up_line nm old new] else [])"
    by (rule character_diff_in_both) (simp_all add: compare_fields_level_ups no_changes_def)
  show "friendship_ups (character_diff p c) =
     in_both p c (\<lambda>nm old new.
       if friendship new > friendship old then [friendship_line nm old new] else [])"
    by (rule character_diff_in_both) (simp_all add: compare_fields_friendship_ups no_changes_def)
  show "constellation_changes (character_diff p c) =
     in_both p c (\<lambda>nm old new.
       if constellation new \<noteq> constellation old then [constellation_line nm old new] else [])"
    by (rule character_diff_in_both)
       (simp_all add: compare_fields_constellation_changes no_changes_def)
  show "level_ups (period_diff eb p c) =
     in_both p c (\<lambda>nm old new. if level new > level old then [level_up_line nm old new] else [])"
    by (rule period_diff_in_both) (simp_all add: compare_fields_level_ups no_changes_def)
  show "friendship_ups (period_diff eb p c) =
     in_both p c (\<lambda>nm old new.
       if friendship new > friendship old then [friendship_line nm old new] else [])"
    by (rule period_diff_in_both) (simp_all add: compare_fields_friendship_ups no_changes_def)
  show "constellation_changes (period_diff eb p c) =
     in_both p c (\<lambda>nm old new.
       if constellation new \<noteq> constellation old then [constellation_line nm old new] else [])"
    by (rule period_diff_in_both)
       (simp_all add: compare_fields_constellation_changes no_changes_def)
qed

theorem field_entries_level_friendship_constellation_witness:
  "level_ups (character_diff ayaka_before ayaka_after) =
     [bullet @ '' Kamisato Ayaka: Lv80 '' @ arrow @ '' Lv90'']
   \<and> friendship_ups (character_diff ayaka_before ayaka_after) = []
   \<and> constellation_changes (character_diff ayaka_before ayaka_after) =
     [bullet @ '' Kamisato Ayaka: C0 '' @ arrow @ '' C1'']
   \<and> level_ups (period_diff {} ayaka_before ayaka_after) =
     [bullet @ '' Kamisato Ayaka: Lv80 '' @ arrow @ '' Lv90'']
   \<and> friendship_ups (period_diff {} ayaka_before ayaka_after) = []
   \<and> constellation_changes (period_diff {} ayaka_before ayaka_after) =
     [bullet @ '' Kamisato Ayaka: C0 '' @ arrow @ '' C1'']"
  using field_entries_level_friendship_constellation [of ayaka_before ayaka_after "{}"]
  by (simp add: in_both_def all_names_def ayaka_before_def ayaka_after_def level_up_line_def
      friendship_line_def constellation_line_def str_int_def str_nat.simps digit_char_def)

text \<open>
  Claim C4. In both loops, a character present in both batches whose weapon name differs
  contributes exactly one weapon-change entry and nothing to the weapon-level and
  refinement categories, whatever happened to the level and the refinement; a character
  whose weapon name is unchanged contributes a weapon-level entry exactly when the level
  strictly increased and, independently, a refinement entry exactly when the refinement
  differs.
\<close>

theorem weapon_entries:
  "weapon_changes (character_diff p c) =
     in_both p c (\<lambda>nm old new.
       if weapon_name new \<noteq> weapon_name old then [weapon_change_line nm old new] else [])
   \<and> weapon_level_changes (character_diff p c) =
     in_both p c (\<lambda>nm old new.
       if weapon_name new = weapon_name old \<and> weapon_level new > weapon_level old
       then [weapon_level_line nm old new] else [])
   \<and> weapon_refinement_changes (character_diff p c) =
     in_both p c (\<lambda>nm old new.
       if weapon_name new = weapon_name old \<and> weapon_refinement new \<noteq> weapon_refinement old
       then [refinement_line nm old new] else [])
   \<and> weapon_changes (period_diff eb p c) =
     in_both p c (\<lambda>nm old new.
       if weapon_name new \<noteq> weapon_name old then [weapon_change_line nm old new] else [])
   \<and> weapon_level_changes (period_diff eb p c) =
     in_both p c (\<lambda>nm old new.
       if weapon_name new = weapon_name old \<and> weapon_level new > weapon_level old
       then [weapon_level_line nm old new] else [])
   \<and> weapon_refinement_changes (period_diff eb p c) =
     in_both p c (\<lambda>nm old new.
       if weapon_name new = weapon_name old \<and> weapon_refinement new \<noteq> weapon_refinement old
       then [refinement_line nm old new] else [])"
proof (intro conjI)
  show "weapon_changes (character_diff p c) =
     in_both p c (\<lambda>nm old new.
       if weapon_name new \<noteq> weapon_name old then [weapon_change_line nm old new] else [])"
    by (rule character_diff_in_both) (simp_all add: compare_fields_weapon_changes no_changes_def)
  show "weapon_level_changes (character_diff p c) =
     in_both p c (\<lambda>nm old new.
       if weapon_name new = weapon_name old \<and> weapon_level new > weapon_level old
       then [weapon_level_line nm old new] else [])"
    by (rule character_diff_in_both)
       (simp_all add: compare_fields_weapon_level_changes no_changes_def)
  show "weapon_refinement_changes (character_diff p c) =
     in_both p c (\<lambda>nm old new.
       if weapon_name new = weapon_name old \<and> weapon_refinement new \<noteq> weapon_refinement old
       then [refinement_line nm old new] else [])"
    by (rule character_diff_in_both)
       (simp_all add: compare_fields_weapon_refinement_changes no_changes_def)
  show "weapon_changes (period_diff eb p c) =
     in_both p c (\<lambda>nm old new.
       if weapon_name new \<noteq> weapon_name old then [weapon_change_line nm old new] else [])"
    by (rule period_diff_in_both) (simp_all add: compare_fields_weapon_changes no_changes_def)
  show "weapon_level_changes (period_diff eb p c) =
     in_both p c (\<lambda>nm old new.
       if weapon_name new = weapon_name old \<and> weapon_level new > weapon_level old
       then [weapon_level_line nm old new] else [])"
    by (rule period_diff_in_both)
       (simp_all add: compare_fields_weapon_level_changes no_changes_def)
  show "weapon_refinement_changes (period_diff eb p c) =
     in_both p c (\<lambda>nm old new.
       if weapon_name new = weapon_name old \<and> weapon_refinement new \<noteq> weapon_refinement old
       then [refinement_line nm old new] else [])"
    by (rule period_diff_in_both)
       (simp_all add: compare_fields_weapon_refinement_changes no_changes_def)
qed

theorem weapon_entries_witness:
  "weapon_changes (character_diff weapon_swap_before weapon_swap_after) =
     [bullet @ '' Diluc: Prototype Archaic '' @ arrow @ '' Wolf's Gravestone (Lv90 R1)'']
   \<and> weapon_level_changes (character_diff weapon_swap_before weapon_swap_after) =
     [bullet @ '' Amber (Sharpshooter's Oath): Lv20 '' @ arrow @ '' Lv40'']
   \<and> weapon_refinement_changes (character_diff weapon_swap_before weapon_swap_after) = []
   \<and> weapon_changes (period_diff {} weapon_swap_before weapon_swap_after) =
     [bullet @ '' Diluc: Prototype Archaic '' @ arrow @ '' Wolf's Gravestone (Lv90 R1)'']
   \<and> weapon_level_changes (period_diff {} weapon_swap_before weapon_swap_after) =
     [bullet @ '' Amber (Sharpshooter's Oath): Lv20 '' @ arrow @ '' Lv40'']
   \<and> weapon_refinement_changes (period_diff {} weapon_swap_before weapon_swap_after) = []"
  using weapon_entries [of weapon_swap_before weapon_swap_after "{}"]
  by (simp add: in_both_def all_names_def weapon_swap_before_def weapon_swap_after_def
      weapon_change_line_def weapon_level_line_def refinement_line_def or_no_weapon_def
      str_int_def str_nat.simps digit_char_def)

lemma distinct_load_fold:
  "distinct (map fst b) \<Longrightarrow>
   distinct (map fst (foldl (\<lambda>batch r. AList.update (col_character_name r) (stats_of_row r) batch) b rs))"
  by (induction rs arbitrary: b) (simp_all add: distinct_update)

lemma distinct_load_character_batch:
  "distinct (map fst (load_character_batch rows a t))"
  unfolding load_character_batch_def by (rule distinct_load_fold) simp

lemma card_dom_distinct:
  "distinct (map fst xs) \<Longrightarrow> card (dom (map_of xs)) = length xs"
  by (metis distinct_card dom_map_of_conv_image_fst length_map list.set_map)

lemma length_load_character_batch:
  "length (load_character_batch rows a t) = card (dom (map_of (load_character_batch rows a t)))"
  by (simp add: card_dom_distinct distinct_load_character_batch)

lemma total_line_length:
  "total_line p c =
     (if length p = length c then None
      else Some (bullet @ '' Characters: '' @ str_nat (length p) @ '' '' @ arrow @ '' ''
             @ str_nat (length c) @ '' (''
             @ (if length p < length c then ''+'' @ str_nat (length c - length p)
                else ''-'' @ str_nat (length p - length c))
             @ '')''))"
  by (auto simp add: total_line_def Let_def str_int_def nat_diff_distrib)

text \<open>
  Claim C8. The totals line, computed alike in both functions from the two loaded batches,
  is present exactly when the numbers of characters differ; it shows the old count, the
  new count and the difference, with a plus sign when the count grew and a minus sign when
  it shrank.
\<close>

theorem total_line_counts:
  "total_line (load_character_batch rows a t1) (load_character_batch rows a t2) =
     (let prev_total = card (dom (map_of (load_character_batch rows a t1)));
          curr_total = card (dom (map_of (load_character_batch rows a t2)))
      in if prev_total = curr_total then None
         else Some (bullet @ '' Characters: '' @ str_nat prev_total @ '' '' @ arrow @ '' ''
                @ str_nat curr_total @ '' (''
                @ (if prev_total < curr_total then ''+'' @ str_nat (curr_total - prev_total)
                   else ''-'' @ str_nat (prev_total - curr_total))
                @ '')''))"
  unfolding Let_def length_load_character_batch [symmetric] by (rule total_line_length)

theorem total_line_counts_witness:
  "total_line (load_character_batch example_rows ''main'' ''2024-01-02 08:00:00'')
              (load_character_batch example_rows ''main'' ''2024-01-07 08:00:00'') =
     Some (bullet @ '' Characters: 1 '' @ arrow @ '' 2 (+1)'')
   \<and> total_line (load_character_batch example_rows ''main'' ''2024-01-07 08:00:00'')
              (load_character_batch example_rows ''main'' ''2024-01-02 08:00:00'') =
     Some (bullet @ '' Characters: 2 '' @ arrow @ '' 1 (-1)'')
   \<and> total_line (load_character_batch example_rows ''main'' ''2024-01-07 08:00:00'')
              (load_character_batch example_rows ''main'' ''2024-01-07 08:00:00'') = None"
proof -
  have l1: "length (load_character_batch example_rows ''main'' ''2024-01-02 08:00:00'') = 1"
    by code_simp
  have l2: "length (load_character_batch example_rows ''main'' ''2024-01-07 08:00:00'') = 2"
    by code_simp
  have s1: "str_nat (Suc 0) = ''1''" by (simp add: str_nat.simps digit_char_def)
  have s2: "str_nat 2 = ''2''" by code_simp
  show ?thesis
    using total_line_counts [of example_rows "''main''" "''2024-01-02 08:00:00''"
        "''2024-01-07 08:00:00''"]
      total_line_counts [of example_rows "''main''" "''2024-01-07 08:00:00''"
        "''2024-01-02 08:00:00''"]
      total_line_counts [of example_rows "''main''" "''2024-01-07 08:00:00''"
        "''2024-01-07 08:00:00''"]
    by (simp add: length_load_character_batch [symmetric] l1 l2 s1 s2 Let_def)
qed

text \<open>
  Claim C6. The timer formatter answers \<open>Full\<close> when the current and the maximum value
  are both known and the current one has reached the maximum, whatever the seconds; else
  \<open>Unknown\<close> when the seconds are unknown; else \<open>Full\<close> when they are not positive; else
  \<open>in\<close> followed by the hours, left out when zero, and the minutes, always shown when the
  hours are zero.
\<close>

theorem format_timer_cases:
  "format_timer seconds current maximum =
     (if (\<exists>c m. current = Some c \<and> maximum = Some m \<and> c \<ge> m) then ''Full''
      else (case seconds of
              None \<Rightarrow> ''Unknown''
            | Some s \<Rightarrow>
                if s \<le> 0 then ''Full''
                else ''in ''
                  @ (if s div 3600 = 0 then [] else str_int (s div 3600) @ ''h'')
                  @ (if s div 3600 = 0 \<or> (s mod 3600) div 60 \<noteq> 0
                     then str_int ((s mod 3600) div 60) @ ''m'' else [])))"
  by (auto simp add: format_timer_def Let_def split: option.splits)

theorem format_timer_cases_witness:
  "format_timer (Some 0) (Some 160) (Some 160) = ''Full''
   \<and> format_timer (Some 7260) (Some 200) (Some 160) = ''Full''
   \<and> format_timer None (Some 10) (Some 160) = ''Unknown''
   \<and> format_timer (Some (- 5)) None None = ''Full''
   \<and> format_timer (Some 7260) (Some 10) (Some 160) = ''in 2h1m''
   \<and> format_timer (Some 59) (Some 10) None = ''in 0m''
   \<and> format_timer (Some 1800) None (Some 160) = ''in 30m''"
proof -
  have s: "str_int 2 = ''2''" "str_int 1 = ''1''" "str_int 0 = ''0''" "str_int 30 = ''30''"
    by code_simp+
  show ?thesis
    using format_timer_cases [of "Some 0" "Some 160" "Some 160"]
      format_timer_cases [of "Some 7260" "Some 200" "Some 160"]
      format_timer_cases [of None "Some 10" "Some 160"]
      format_timer_cases [of "Some (- 5)" None None]
      format_timer_cases [of "Some 7260" "Some 10" "Some 160"]
      format_timer_cases [of "Some 59" "Some 10" None]
      format_timer_cases [of "Some 1800" None "Some 160"]
    by (simp add: s)
qed

text \<open>
  Claim C7 says that the resolver never raises and that a timestamp without a zone is
  read as UTC. On a \<^verbatim>\<open>datetime\<close> value without a zone the subtraction from the aware
  current time raises \<^verbatim>\<open>TypeError\<close>, outside any handler; on an ISO string without a
  zone the same error is caught and the result is the unknown value, while the same string
  with \<^verbatim>\<open>Z\<close> resolves to the difference in seconds.
\<close>

theorem naive_datetime_raises:
  "parse_recovery_seconds lib now (PDatetime \<lparr> wall_clock = 1893456000000000, tzinfo = None \<rparr>)
     = Inl TypeError
   \<and> parse_recovery_seconds example_lib 1704067200000000 (PStr ''2024-01-01T01:00:00'') = Inr None
   \<and> parse_recovery_seconds example_lib 1704067200000000 (PStr ''2024-01-01T01:00:00Z'')
     = Inr (Some 3600)"
proof (intro conjI)
  show "parse_recovery_seconds lib now
      (PDatetime \<lparr> wall_clock = 1893456000000000, tzinfo = None \<rparr>) = Inl TypeError"
    by (simp add: parse_recovery_seconds_def seconds_from_now_def)
  show "parse_recovery_seconds example_lib 1704067200000000 (PStr ''2024-01-01T01:00:00'')
      = Inr None"
    by code_simp
  show "parse_recovery_seconds example_lib 1704067200000000 (PStr ''2024-01-01T01:00:00Z'')
      = Inr (Some 3600)"
    by code_simp
qed

section \<open>Characters present on one side only\<close>

lemma one_sided_step:
  "(map_of p nm = None \<and> map_of c nm = Some new \<longrightarrow>
      diff_step p c cs nm = cs\<lparr>new_chars := new_chars cs @ [new_char_line nm new]\<rparr>
      \<and> period_step eb p c cs nm =
          (if nm \<in> eb then cs else cs\<lparr>new_chars := new_chars cs @ [new_char_line nm new]\<rparr>))
   \<and> (map_of c nm = None \<longrightarrow> diff_step p c cs nm = cs \<and> period_step eb p c cs nm = cs)"
  by (auto simp add: diff_step_def period_step_def split: option.splits)

lemma diff_step_new_chars:
  "new_chars (diff_step p c cs nm) = new_chars cs @
     (case (map_of p nm, map_of c nm) of (None, Some new) \<Rightarrow> [new_char_line nm new] | _ \<Rightarrow> [])"
  by (simp add: diff_step_def compare_fields_new_chars split: option.splits)

lemma period_step_new_chars:
  "new_chars (period_step eb p c cs nm) = new_chars cs @
     (case (map_of p nm, map_of c nm) of
        (None, Some new) \<Rightarrow> if nm \<in> eb then [] else [new_char_line nm new]
      | _ \<Rightarrow> [])"
  by (simp add: period_step_def compare_fields_new_chars split: option.splits)

lemma character_diff_new_chars:
  "new_chars (character_diff p c) = only_in_target p c (\<lambda>nm new. [new_char_line nm new])"
  unfolding character_diff_def only_in_target_def
  by (subst foldl_entries [where sel = new_chars, OF diff_step_new_chars])
     (simp add: no_changes_def)

lemma period_diff_new_chars:
  "new_chars (period_diff eb p c) =
     only_in_target p c (\<lambda>nm new. if nm \<in> eb then [] else [new_char_line nm new])"
  unfolding period_diff_def only_in_target_def
  by (subst foldl_entries [where sel = new_chars, OF period_step_new_chars])
     (simp add: no_changes_def)

lemma period_step_other_categories:
  "level_ups (period_step eb p c cs nm) = level_ups (diff_step p c cs nm)"
  "friendship_ups (period_step eb p c cs nm) = friendship_ups (diff_step p c cs nm)"
  "constellation_changes (period_step eb p c cs nm) = constellation_changes (diff_step p c cs nm)"
  "weapon_changes (period_step eb p c cs nm) = weapon_changes (diff_step p c cs nm)"
  "weapon_level_changes (period_step eb p c cs nm) = weapon_level_changes (diff_step p c cs nm)"
  "weapon_refinement_changes (period_step eb p c cs nm)
     = weapon_refinement_changes (diff_step p c cs nm)"
  by (simp_all add: period_step_def diff_step_def split: option.splits)

text \<open>
  Claim C1, as the code has it. Over the whole loop, the new-character category of the
  latest-snapshot diff holds one entry, rendered with the six current stats, for each
  character present only in the target batch, and every other category collects entries
  from characters present in both batches only: a character present only in the target is
  never a field change, and a character absent from the target appears in no category. The
  diff of the period summary is the same except for its new-character category, which
  leaves out the characters whose name is in \<^verbatim>\<open>existed_before\<close>, the names of the rows
  of the account taken before the first snapshot of the window.
\<close>

theorem one_sided_characters:
  "character_diff p c =
     \<lparr> new_chars = only_in_target p c (\<lambda>nm new. [new_char_line nm new]),
       level_ups = in_both p c (\<lambda>nm old new.
         if level new > level old then [level_up_line nm old new] else []),
       friendship_ups = in_both p c (\<lambda>nm old new.
         if friendship new > friendship old then [friendship_line nm old new] else []),
       constellation_changes = in_both p c (\<lambda>nm old new.
         if constellation new \<noteq> constellation old then [constellation_line nm old new] else []),
       weapon_changes = in_both p c (\<lambda>nm old new.
         if weapon_name new \<noteq> weapon_name old then [weapon_change_line nm old new] else []),
       weapon_level_changes = in_both p c (\<lambda>nm old new.
         if weapon_name new = weapon_name old \<and> weapon_level new > weapon_level old
         then [weapon_level_line nm old new] else []),
       weapon_refinement_changes = in_both p c (\<lambda>nm old new.
         if weapon_name new = weapon_name old \<and> weapon_refinement new \<noteq> weapon_refinement old
         then [refinement_line nm old new] else []) \<rparr>
   \<and> period_diff eb p c =
     (character_diff p c)\<lparr>new_chars :=
        only_in_target p c (\<lambda>nm new. if nm \<in> eb then [] else [new_char_line nm new])\<rparr>
   \<and> (nm \<in> names_before rows a start_time \<longleftrightarrow>
        (\<exists>r \<in> set rows. col_account_name r = a \<and> col_taken_at_utc r < start_time
           \<and> col_character_name r = nm))"
proof (intro conjI)
  have lv: "level_ups (character_diff p c) = in_both p c (\<lambda>nm old new.
         if level new > level old then [level_up_line nm old new] else [])"
    by (rule character_diff_in_both) (simp_all add: compare_fields_level_ups no_changes_def)
  have fr: "friendship_ups (character_diff p c) = in_both p c (\<lambda>nm old new.
         if friendship new > friendship old then [friendship_line nm old new] else [])"
    by (rule character_diff_in_both) (simp_all add: compare_fields_friendship_ups no_changes_def)
  have co: "constellation_changes (character_diff p c) = in_both p c (\<lambda>nm old new.
         if constellation new \<noteq> constellation old then [constellation_line nm old new] else [])"
    by (rule character_diff_in_both)
       (simp_all add: compare_fields_constellation_changes no_changes_def)
  have wc: "weapon_changes (character_diff p c) = in_both p c (\<lambda>nm old new.
         if weapon_name new \<noteq> weapon_name old then [weapon_change_line nm old new] else [])"
    by (rule character_diff_in_both) (simp_all add: compare_fields_weapon_changes no_changes_def)
  have wl: "weapon_level_changes (character_diff p c) = in_both p c (\<lambda>nm old new.
         if weapon_name new = weapon_name old \<and> weapon_level new > weapon_level old
         then [weapon_level_line nm old new] else [])"
    by (rule character_diff_in_both)
       (simp_all add: compare_fields_weapon_level_changes no_changes_def)
  have wr: "weapon_refinement_changes (character_diff p c) = in_both p c (\<lambda>nm old new.
         if weapon_name new = weapon_name old \<and> weapon_refinement new \<noteq> weapon_refinement old
         then [refinement_line nm old new] else [])"
    by (rule character_diff_in_both)
       (simp_all add: compare_fields_weapon_refinement_changes no_changes_def)
  show "character_diff p c =
     \<lparr> new_chars = only_in_target p c (\<lambda>nm new. [new_char_line nm new]),
       level_ups = in_both p c (\<lambda>nm old new.
         if level new > level old then [level_up_line nm old new] else []),
       friendship_ups = in_both p c (\<lambda>nm old new.
         if friendship new > friendship old then [friendship_line nm old new] else []),
       constellation_changes = in_both p c (\<lambda>nm old new.
         if constellation new \<noteq> constellation old then [constellation_line nm old new] else []),
       weapon_changes = in_both p c (\<lambda>nm old new.
         if weapon_name new \<noteq> weapon_name old then [weapon_change_line nm old new] else []),
       weapon_level_changes = in_both p c (\<lambda>nm old new.
         if weapon_name new = weapon_name old \<and> weapon_level new > weapon_level old
         then [weapon_level_line nm old new] else []),
       weapon_refinement_changes = in_both p c (\<lambda>nm old new.
         if weapon_name new = weapon_name old \<and> weapon_refinement new \<noteq> weapon_refinement old
         then [refinement_line nm old new] else []) \<rparr>"
    by (rule changes.equality) (simp_all add: character_diff_new_chars lv fr co wc wl wr)
  have same: "sel (period_diff eb p c) = sel (character_diff p c)"
    if "\<And>cs nm. sel (period_step eb p c cs nm) = sel (diff_step p c cs nm)"
      and "\<And>cs nm. sel (diff_step p c cs nm) = sel cs @ g nm" for sel :: "changes \<Rightarrow> string list" and g
    unfolding period_diff_def character_diff_def
    using foldl_entries [where sel = sel and step = "period_step eb p c" and g = g]
      foldl_entries [where sel = sel and step = "diff_step p c" and g = g] that
    by simp
  show "period_diff eb p c =
     (character_diff p c)\<lparr>new_chars :=
        only_in_target p c (\<lambda>nm new. if nm \<in> eb then [] else [new_char_line nm new])\<rparr>"
  proof (rule changes.equality)
    show "new_chars (period_diff eb p c) = new_chars ((character_diff p c)\<lparr>new_chars :=
        only_in_target p c (\<lambda>nm new. if nm \<in> eb then [] else [new_char_line nm new])\<rparr>)"
      by (simp add: period_diff_new_chars)
    show "level_ups (period_diff eb p c) = level_ups ((character_diff p c)\<lparr>new_chars :=
        only_in_target p c (\<lambda>nm new. if nm \<in> eb then [] else [new_char_line nm new])\<rparr>)"
      using same [where sel = level_ups, OF period_step_other_categories(1)
          diff_step_in_both [where sel = level_ups, OF compare_fields_level_ups]]
      by simp
    show "friendship_ups (period_diff eb p c) = friendship_ups ((character_diff p c)\<lparr>new_chars :=
        only_in_target p c (\<lambda>nm new. if nm \<in> eb then [] else [new_char_line nm new])\<rparr>)"
      using same [where sel = friendship_ups, OF period_step_other_categories(2)
          diff_step_in_both [where sel = friendship_ups, OF compare_fields_friendship_ups]]
      by simp
    show "constellation_changes (period_diff eb p c)
        = constellation_changes ((character_diff p c)\<lparr>new_chars :=
        only_in_target p c (\<lambda>nm new. if nm \<in> eb then [] else [new_char_line nm new])\<rparr>)"
      using same [where sel = constellation_changes, OF period_step_other_categories(3)
          diff_step_in_both [where sel = constellation_changes,
            OF compare_fields_constellation_changes]]
      by simp
    show "weapon_changes (period_diff eb p c) = weapon_changes ((character_diff p c)\<lparr>new_chars :=
        only_in_target p c (\<lambda>nm new. if nm \<in> eb then [] else [new_char_line nm new])\<rparr>)"
      using same [where sel = weapon_changes, OF period_step_other_categories(4)
          diff_step_in_both [where sel = weapon_changes, OF compare_fields_weapon_changes]]
      by simp
    show "weapon_level_changes (period_diff eb p c)
        = weapon_level_changes ((character_diff p c)\<lparr>new_chars :=
        only_in_target p c (\<lambda>nm new. if nm \<in> eb then [] else [new_char_line nm new])\<rparr>)"
      using same [where sel = weapon_level_changes, OF period_step_other_categories(5)
          diff_step_in_both [where sel = weapon_level_changes,
            OF compare_fields_weapon_level_changes]]
      by simp
    show "weapon_refinement_changes (period_diff eb p c)
        = weapon_refinement_changes ((character_diff p c)\<lparr>new_chars :=
        only_in_target p c (\<lambda>nm new. if nm \<in> eb then [] else [new_char_line nm new])\<rparr>)"
      using same [where sel = weapon_refinement_changes, OF period_step_other_categories(6)
          diff_step_in_both [where sel = weapon_refinement_changes,
            OF compare_fields_weapon_refinement_changes]]
      by simp
    show "changes.more (period_diff eb p c) = changes.more ((character_diff p c)\<lparr>new_chars :=
        only_in_target p c (\<lambda>nm new. if nm \<in> eb then [] else [new_char_line nm new])\<rparr>)"
      by simp
  qed
  show "nm \<in> names_before rows a start_time \<longleftrightarrow>
        (\<exists>r \<in> set rows. col_account_name r = a \<and> col_taken_at_utc r < start_time
           \<and> col_character_name r = nm)"
    by (auto simp add: names_before_def)
qed


theorem one_sided_characters_witness:
  "new_chars (character_diff
       (load_character_batch example_rows ''main'' ''2024-01-02 08:00:00'')
       (load_character_batch example_rows ''main'' ''2024-01-07 08:00:00''))
     = [bullet @ '' Amber: Lv20 C0 F1 '' @ em_dash @ '' Hunter's Bow (Lv1 R1)'']
   \<and> ''Amber'' \<in> names_before example_rows ''main'' ''2024-01-02 08:00:00''
   \<and> period_diff (names_before example_rows ''main'' ''2024-01-02 08:00:00'')
       (load_character_batch example_rows ''main'' ''2024-01-02 08:00:00'')
       (load_character_batch example_rows ''main'' ''2024-01-07 08:00:00'') = no_changes
   \<and> new_chars (period_diff {}
       (load_character_batch example_rows ''main'' ''2024-01-02 08:00:00'')
       (load_character_batch example_rows ''main'' ''2024-01-07 08:00:00''))
     = [bullet @ '' Amber: Lv20 C0 F1 '' @ em_dash @ '' Hunter's Bow (Lv1 R1)'']
   \<and> character_diff
       (load_character_batch example_rows ''main'' ''2024-01-07 08:00:00'')
       (load_character_batch example_rows ''main'' ''2024-01-02 08:00:00'') = no_changes
   \<and> period_diff {}
       (load_character_batch example_rows ''main'' ''2024-01-07 08:00:00'')
       (load_character_batch example_rows ''main'' ''2024-01-02 08:00:00'') = no_changes"
proof -
  let ?amber = "\<lparr> level = 20, friendship = 1, constellation = 0, weapon_name = ''Hunter's Bow'',
                weapon_level = 1, weapon_refinement = 1 \<rparr>"
  let ?lisa = "\<lparr> level = 40, friendship = 2, constellation = 0, weapon_name = [],
                weapon_level = 0, weapon_refinement = 0 \<rparr>"
  have p: "load_character_batch example_rows ''main'' ''2024-01-02 08:00:00'' = [(''Lisa'', ?lisa)]"
    by code_simp
  have c: "load_character_batch example_rows ''main'' ''2024-01-07 08:00:00''
      = [(''Lisa'', ?lisa), (''Amber'', ?amber)]"
    by code_simp
  have line: "new_char_line ''Amber'' ?amber
      = bullet @ '' Amber: Lv20 C0 F1 '' @ em_dash @ '' Hunter's Bow (Lv1 R1)''"
    by code_simp
  have before: "''Amber'' \<in> names_before example_rows ''main'' ''2024-01-02 08:00:00''"
    using one_sided_characters [of "[]" "[]" "{}" "''Amber''" example_rows "''main''"
        "''2024-01-02 08:00:00''"]
    by (simp add: example_rows_def)
  show ?thesis
    using one_sided_characters [of "[(''Lisa'', ?lisa)]" "[(''Lisa'', ?lisa), (''Amber'', ?amber)]"
        "names_before example_rows ''main'' ''2024-01-02 08:00:00''"]
      one_sided_characters [of "[(''Lisa'', ?lisa)]" "[(''Lisa'', ?lisa), (''Amber'', ?amber)]" "{}"]
      one_sided_characters [of "[(''Lisa'', ?lisa), (''Amber'', ?amber)]" "[(''Lisa'', ?lisa)]" "{}"]
      before line
    by (simp add: p c only_in_target_def in_both_def all_names_def no_changes_def)
qed

text \<open>
  Claim C1 as stated fails for the period summary. Amber was captured on 20 December, is
  missing from the first capture of the window and back in the last one: she is present
  only in the target batch, and the summary of the seven days before 8 January reports no
  new character, only the totals line.
\<close>

theorem period_summary_skips_returning_character:
  "map_of (load_character_batch example_rows ''main'' ''2024-01-02 08:00:00'') ''Amber'' = None
   \<and> map_of (load_character_batch example_rows ''main'' ''2024-01-07 08:00:00'') ''Amber''
       = Some \<lparr> level = 20, friendship = 1, constellation = 0, weapon_name = ''Hunter's Bow'',
                weapon_level = 1, weapon_refinement = 1 \<rparr>
   \<and> snapshot_times_in_window example_rows ''main'' ''2024-01-01 00:00:00'' ''2024-01-08 00:00:00''
       = [''2024-01-02 08:00:00'', ''2024-01-07 08:00:00'']
   \<and> period_diff (names_before example_rows ''main'' ''2024-01-02 08:00:00'')
         (load_character_batch example_rows ''main'' ''2024-01-02 08:00:00'')
         (load_character_batch example_rows ''main'' ''2024-01-07 08:00:00'') = no_changes
   \<and> post_period_summary example_lib slack_ok jan_8 example_db example_account ''Last 7 days'' 7
       = Inr (record_run example_db ''main'' ''Last 7 days'' ''2024-01-08 00:00:00'',
              \<lparr> posts = [''*Genshin Character Summary '' @ em_dash @ '' main*'' @ [CHR 0x0A]
                          @ ''_Period: Last 7 days (2024-01-02 08:00:00 '' @ arrow
                          @ '' 2024-01-07 08:00:00)_'' @ [CHR 0x0A, CHR 0x0A]
                          @ ''*Totals*'' @ [CHR 0x0A]
                          @ bullet @ '' Characters: 1 '' @ arrow @ '' 2 (+1)''],
                warnings = [] \<rparr>)"
  by code_simp

section \<open>Suppression of an empty report\<close>

lemma compare_fields_same: "compare_fields nm v v cs = cs"
  by (simp add: compare_fields_def)

lemma foldl_unchanged:
  "(\<And>n. n \<in> set ns \<Longrightarrow> step cs n = cs) \<Longrightarrow> foldl step cs ns = cs"
  by (induction ns) simp_all

lemma set_all_names: "set (all_names p c) = fst ` set p \<union> fst ` set c"
  by (simp add: all_names_def)

lemma same_map_diff_step:
  assumes "map_of p = map_of c"
  shows "diff_step p c cs nm = cs" and "period_step eb p c cs nm = cs"
  using assms by (simp_all add: diff_step_def period_step_def compare_fields_same
      split: option.splits)

lemma same_map_no_changes:
  assumes "map_of p = map_of c"
  shows "character_diff p c = no_changes" and "period_diff eb p c = no_changes"
  unfolding character_diff_def period_diff_def
  by (rule foldl_unchanged, rule same_map_diff_step [OF assms])+

lemma same_map_total_line:
  assumes "map_of p = map_of c" "distinct (map fst p)" "distinct (map fst c)"
  shows "total_line p c = None"
proof -
  have "length p = length c"
    using assms card_dom_distinct [of p] card_dom_distinct [of c] by simp
  then show ?thesis by (simp add: total_line_def)
qed

lemma nothing_to_report_no_changes: "nothing_to_report no_changes None"
  by (simp add: nothing_to_report_def no_changes_def)

text \<open>
  Claim C9. Two batches that map the same names to equal stats give a change set with
  seven empty lists and no totals line, in the latest-snapshot diff and in the period
  summary. Whenever the seven lists and the totals line are empty, the latest-snapshot diff
  builds no text and posts nothing, and a due period summary posts nothing either and only
  records the run.
\<close>

theorem empty_report_suppressed:
  "(map_of (load_character_batch rows a t1) = map_of (load_character_batch rows a t2) \<longrightarrow>
      nothing_to_report
        (character_diff (load_character_batch rows a t1) (load_character_batch rows a t2))
        (total_line (load_character_batch rows a t1) (load_character_batch rows a t2))
      \<and> nothing_to_report
        (period_diff eb (load_character_batch rows a t1) (load_character_batch rows a t2))
        (total_line (load_character_batch rows a t1) (load_character_batch rows a t2)))
   \<and> (previous_snapshot_time (character_stats_snapshots d) (name acc) t = Some t0
        \<and> nothing_to_report
            (character_diff (load_character_batch (character_stats_snapshots d) (name acc) t0)
               (load_character_batch (character_stats_snapshots d) (name acc) t))
            (total_line (load_character_batch (character_stats_snapshots d) (name acc) t0)
               (load_character_batch (character_stats_snapshots d) (name acc) t)) \<longrightarrow>
      maybe_post_character_diff lib slack d acc t = no_effects)
   \<and> (\<not> not_due lib now_utc (last_run_row (character_summary_runs d) (name acc) label) days_back
        \<and> minus_days now_utc days_back = Inr window_start_dt
        \<and> snapshot_times_in_window (character_stats_snapshots d) (name acc)
             (strftime lib window_start_dt) (strftime lib now_utc) = snap_rows
        \<and> nothing_to_report
            (period_diff (names_before (character_stats_snapshots d) (name acc) (hd snap_rows))
               (load_character_batch (character_stats_snapshots d) (name acc) (hd snap_rows))
               (load_character_batch (character_stats_snapshots d) (name acc) (last snap_rows)))
            (total_line
               (load_character_batch (character_stats_snapshots d) (name acc) (hd snap_rows))
               (load_character_batch (character_stats_snapshots d) (name acc) (last snap_rows))) \<longrightarrow>
      post_period_summary lib slack now_utc d acc label days_back
        = Inr (record_run d (name acc) label (strftime lib now_utc), no_effects))"
proof (intro conjI impI)
  assume same: "map_of (load_character_batch rows a t1) = map_of (load_character_batch rows a t2)"
  have tl: "total_line (load_character_batch rows a t1) (load_character_batch rows a t2) = None"
    by (rule same_map_total_line [OF same]) (rule distinct_load_character_batch)+
  show "nothing_to_report
        (character_diff (load_character_batch rows a t1) (load_character_batch rows a t2))
        (total_line (load_character_batch rows a t1) (load_character_batch rows a t2))"
    by (simp add: same_map_no_changes(1) [OF same] tl nothing_to_report_no_changes)
  show "nothing_to_report
        (period_diff eb (load_character_batch rows a t1) (load_character_batch rows a t2))
        (total_line (load_character_batch rows a t1) (load_character_batch rows a t2))"
    by (simp add: same_map_no_changes(2) [OF same] tl nothing_to_report_no_changes)
next
  assume "previous_snapshot_time (character_stats_snapshots d) (name acc) t = Some t0
        \<and> nothing_to_report
            (character_diff (load_character_batch (character_stats_snapshots d) (name acc) t0)
               (load_character_batch (character_stats_snapshots d) (name acc) t))
            (total_line (load_character_batch (character_stats_snapshots d) (name acc) t0)
               (load_character_batch (character_stats_snapshots d) (name acc) t))"
  then show "maybe_post_character_diff lib slack d acc t = no_effects"
    by (simp add: maybe_post_character_diff_def Let_def)
next
  assume "\<not> not_due lib now_utc (last_run_row (character_summary_runs d) (name acc) label) days_back
        \<and> minus_days now_utc days_back = Inr window_start_dt
        \<and> snapshot_times_in_window (character_stats_snapshots d) (name acc)
             (strftime lib window_start_dt) (strftime lib now_utc) = snap_rows
        \<and> nothing_to_report
            (period_diff (names_before (character_stats_snapshots d) (name acc) (hd snap_rows))
               (load_character_batch (character_stats_snapshots d) (name acc) (hd snap_rows))
               (load_character_batch (character_stats_snapshots d) (name acc) (last snap_rows)))
            (total_line
               (load_character_batch (character_stats_snapshots d) (name acc) (hd snap_rows))
               (load_character_batch (character_stats_snapshots d) (name acc) (last snap_rows)))"
  then show "post_period_summary lib slack now_utc d acc label days_back
        = Inr (record_run d (name acc) label (strftime lib now_utc), no_effects)"
    by (simp add: post_period_summary_def Let_def)
qed

theorem empty_report_suppressed_witness:
  "load_character_batch (character_stats_snapshots steady_db) ''main'' ''2024-01-02 08:00:00''
     = load_character_batch (character_stats_snapshots steady_db) ''main'' ''2024-01-03 08:00:00''
   \<and> nothing_to_report
        (character_diff
           (load_character_batch (character_stats_snapshots steady_db) ''main''
              ''2024-01-02 08:00:00'')
           (load_character_batch (character_stats_snapshots steady_db) ''main''
              ''2024-01-03 08:00:00''))
        (total_line
           (load_character_batch (character_stats_snapshots steady_db) ''main''
              ''2024-01-02 08:00:00'')
           (load_character_batch (character_stats_snapshots steady_db) ''main''
              ''2024-01-03 08:00:00''))
   \<and> previous_snapshot_time (character_stats_snapshots steady_db) ''main'' ''2024-01-03 08:00:00''
       = Some ''2024-01-02 08:00:00''
   \<and> maybe_post_character_diff example_lib slack_ok steady_db example_account
         ''2024-01-03 08:00:00'' = no_effects
   \<and> \<not> not_due example_lib jan_8
         (last_run_row (character_summary_runs steady_db) ''main'' ''Last 7 days'') 7
   \<and> minus_days jan_8 7 = Inr 1704067200000000
   \<and> post_period_summary example_lib slack_ok jan_8 steady_db example_account ''Last 7 days'' 7
       = Inr (record_run steady_db ''main'' ''Last 7 days'' ''2024-01-08 00:00:00'', no_effects)"
proof -
  let ?rows = "character_stats_snapshots steady_db"
  let ?p = "load_character_batch ?rows ''main'' ''2024-01-02 08:00:00''"
  let ?c = "load_character_batch ?rows ''main'' ''2024-01-03 08:00:00''"
  have nm: "name example_account = ''main''" by (simp add: example_account_def)
  have same: "?p = ?c" by code_simp
  have prev: "previous_snapshot_time ?rows ''main'' ''2024-01-03 08:00:00''
      = Some ''2024-01-02 08:00:00''" by code_simp
  have due: "\<not> not_due example_lib jan_8
      (last_run_row (character_summary_runs steady_db) ''main'' ''Last 7 days'') 7" by code_simp
  have start: "minus_days jan_8 7 = Inr 1704067200000000" by code_simp
  have win: "snapshot_times_in_window ?rows ''main'' (strftime example_lib 1704067200000000)
      (strftime example_lib jan_8) = [''2024-01-02 08:00:00'', ''2024-01-03 08:00:00'']"
    by code_simp
  have now_str: "strftime example_lib jan_8 = ''2024-01-08 00:00:00''" by code_simp
  have "map_of ?p = map_of ?c" using same by simp
  with empty_report_suppressed [of ?rows "''main''" "''2024-01-02 08:00:00''"
      "''2024-01-03 08:00:00''" "{}" steady_db example_account "''2024-01-03 08:00:00''"
      "''2024-01-02 08:00:00''" example_lib slack_ok jan_8 "''Last 7 days''" 7
      1704067200000000 "[''2024-01-02 08:00:00'', ''2024-01-03 08:00:00'']"]
    empty_report_suppressed [of ?rows "''main''" "''2024-01-02 08:00:00''"
      "''2024-01-03 08:00:00''"
      "names_before ?rows ''main'' ''2024-01-02 08:00:00''"
      steady_db example_account "''2024-01-03 08:00:00''"
      "''2024-01-02 08:00:00''" example_lib slack_ok jan_8 "''Last 7 days''" 7
      1704067200000000 "[''2024-01-02 08:00:00'', ''2024-01-03 08:00:00'']"]
  show ?thesis
    using same prev due start win now_str nm by simp
qed

section \<open>Scheduling of the period summary\<close>

lemma not_due_returns:
  "not_due lib now_utc (last_run_row (character_summary_runs d) (name acc) label) days_back \<Longrightarrow>
   post_period_summary lib slack now_utc d acc label days_back = Inr (d, no_effects)"
  by (simp add: post_period_summary_def Let_def)

lemma last_run_row_record_run:
  "last_run_row (character_summary_runs (record_run d a label now_str)) a label = Some now_str"
  by (simp add: last_run_row_def record_run_def)



text \<open>
  Claim C3. When the evaluation is due (no run row, or at least \<open>days_back - 1\<close> days since
  the latest one) and the window from \<open>now - days_back\<close> to \<open>now\<close> holds fewer than two
  distinct snapshot times of the account, the call appends a run row with the current
  time, which is then the latest one of the account and label, leaves the snapshot table
  alone, and posts and logs nothing.
\<close>

theorem due_without_two_snapshots:
  assumes "last_run_row (character_summary_runs d) (name acc) label = None
      \<or> (\<exists>text last_run_dt.
            last_run_row (character_summary_runs d) (name acc) label = Some text
            \<and> strptime lib text = Some last_run_dt
            \<and> \<not> double_less_int (delta_days now_utc last_run_dt) (days_back - 1))"
    and "minus_days now_utc days_back = Inr window_start_dt"
    and "length (snapshot_times_in_window (character_stats_snapshots d) (name acc)
           (strftime lib window_start_dt) (strftime lib now_utc)) < 2"
  shows "post_period_summary lib slack now_utc d acc label days_back
      = Inr (record_run d (name acc) label (strftime lib now_utc), no_effects)
    \<and> last_run_row (character_summary_runs (record_run d (name acc) label (strftime lib now_utc)))
        (name acc) label = Some (strftime lib now_utc)
    \<and> character_stats_snapshots (record_run d (name acc) label (strftime lib now_utc))
        = character_stats_snapshots d"
proof -
  have "\<not> not_due lib now_utc (last_run_row (character_summary_runs d) (name acc) label) days_back"
    using assms(1) by (auto simp add: not_due_def)
  then have "post_period_summary lib slack now_utc d acc label days_back
      = Inr (record_run d (name acc) label (strftime lib now_utc), no_effects)"
    using assms(2,3) by (simp add: post_period_summary_def Let_def)
  then show ?thesis
    by (simp add: last_run_row_record_run) (simp add: record_run_def)
qed

theorem due_without_two_snapshots_witness:
  "last_run_row (character_summary_runs example_db) (name other_account) ''Last 7 days'' = None
   \<and> minus_days jan_8 7 = Inr 1704067200000000
   \<and> snapshot_times_in_window (character_stats_snapshots example_db) (name other_account)
        (strftime example_lib 1704067200000000) (strftime example_lib jan_8) = []
   \<and> post_period_summary example_lib slack_ok jan_8 example_db other_account ''Last 7 days'' 7
       = Inr (record_run example_db ''alt'' ''Last 7 days'' ''2024-01-08 00:00:00'', no_effects)
   \<and> last_run_row (character_summary_runs
          (record_run example_db ''alt'' ''Last 7 days'' ''2024-01-08 00:00:00''))
        ''alt'' ''Last 7 days'' = Some ''2024-01-08 00:00:00''
   \<and> strptime example_lib ''2024-01-03 00:00:00'' = Some 1704240000000000
   \<and> delta_days jan_20 1704240000000000 = (17 * 2 ^ 48, - 48)
   \<and> \<not> double_less_int (delta_days jan_20 1704240000000000) (7 - 1)
   \<and> minus_days jan_20 7 = Inr 1705104000000000
   \<and> post_period_summary example_lib slack_ok jan_20 recent_run_db example_account
        ''Last 7 days'' 7
       = Inr (record_run recent_run_db ''main'' ''Last 7 days'' ''2024-01-20 00:00:00'',
              no_effects)"
proof -
  have nm: "name other_account = ''alt''" "name example_account = ''main''"
    by (simp_all add: other_account_def example_account_def)
  have cold: "last_run_row (character_summary_runs example_db) (name other_account)
      ''Last 7 days'' = None" by code_simp
  have start: "minus_days jan_8 7 = Inr 1704067200000000" by code_simp
  have win: "snapshot_times_in_window (character_stats_snapshots example_db) (name other_account)
      (strftime example_lib 1704067200000000) (strftime example_lib jan_8) = []" by code_simp
  have len: "length (snapshot_times_in_window (character_stats_snapshots example_db)
      (name other_account) (strftime example_lib 1704067200000000)
      (strftime example_lib jan_8)) < 2" using win by simp
  have now_str: "strftime example_lib jan_8 = ''2024-01-08 00:00:00''"
    "strftime example_lib jan_20 = ''2024-01-20 00:00:00''" by code_simp+
  have row: "last_run_row (character_summary_runs recent_run_db) (name example_account)
      ''Last 7 days'' = Some ''2024-01-03 00:00:00''" by code_simp
  have parsed: "strptime example_lib ''2024-01-03 00:00:00'' = Some 1704240000000000"
    by code_simp
  have elapsed: "delta_days jan_20 1704240000000000 = (17 * 2 ^ 48, - 48)" by code_simp
  have late: "\<not> double_less_int (delta_days jan_20 1704240000000000) (7 - 1)" by code_simp
  have start': "minus_days jan_20 7 = Inr 1705104000000000" by code_simp
  have win': "snapshot_times_in_window (character_stats_snapshots recent_run_db)
      (name example_account) (strftime example_lib 1705104000000000)
      (strftime example_lib jan_20) = []" by code_simp
  have len': "length (snapshot_times_in_window (character_stats_snapshots recent_run_db)
      (name example_account) (strftime example_lib 1705104000000000)
      (strftime example_lib jan_20)) < 2" using win' by simp
  have due': "last_run_row (character_summary_runs recent_run_db) (name example_account)
        ''Last 7 days'' = None
      \<or> (\<exists>text last_run_dt.
            last_run_row (character_summary_runs recent_run_db) (name example_account)
              ''Last 7 days'' = Some text
            \<and> strptime example_lib text = Some last_run_dt
            \<and> \<not> double_less_int (delta_days jan_20 last_run_dt) (7 - 1))"
    using row parsed late by simp
  show ?thesis
    using due_without_two_snapshots [OF disjI1 [OF cold] start len, of slack_ok]
      due_without_two_snapshots [OF due' start' len', of slack_ok]
      cold start win now_str parsed elapsed late start' nm
    by simp
qed

text \<open>
  Claim C10. When the evaluation is due, the window holds at least two snapshot times and
  the change set is not empty, the call never raises: it posts exactly one payload, logs a
  warning exactly when the sink answers with a failure status or the transport raises, and
  in every case appends the run row with the current time. An evaluation at a later time,
  fewer than \<open>days_back - 1\<close> days after the recorded one, then returns without posting.
\<close>

theorem report_posted_and_run_recorded:
  assumes "\<not> not_due lib now_utc (last_run_row (character_summary_runs d) (name acc) label)
             days_back"
    and "minus_days now_utc days_back = Inr window_start_dt"
    and "snapshot_times_in_window (character_stats_snapshots d) (name acc)
           (strftime lib window_start_dt) (strftime lib now_utc) = snap_rows"
    and "2 \<le> length snap_rows"
    and "\<not> nothing_to_report
            (period_diff (names_before (character_stats_snapshots d) (name acc) (hd snap_rows))
               (load_character_batch (character_stats_snapshots d) (name acc) (hd snap_rows))
               (load_character_batch (character_stats_snapshots d) (name acc) (last snap_rows)))
            (total_line
               (load_character_batch (character_stats_snapshots d) (name acc) (hd snap_rows))
               (load_character_batch (character_stats_snapshots d) (name acc) (last snap_rows)))"
  shows "(case post_period_summary lib slack now_utc d acc label days_back of
            Inl e \<Rightarrow> False
          | Inr (d', eff) \<Rightarrow>
              d' = record_run d (name acc) label (strftime lib now_utc)
              \<and> length (posts eff) = 1
              \<and> warnings eff =
                  (case slack (hd (posts eff)) of
                     Responded ok status_code text \<Rightarrow>
                       if ok then [] else [Webhook_responded status_code text]
                   | Raised e \<Rightarrow> [Post_failed e]))
    \<and> last_run_row (character_summary_runs (record_run d (name acc) label (strftime lib now_utc)))
        (name acc) label = Some (strftime lib now_utc)
    \<and> (strptime lib (strftime lib now_utc) = Some recorded
        \<and> double_less_int (delta_days later recorded) (days_back - 1) \<longrightarrow>
        post_period_summary lib slack' later
            (record_run d (name acc) label (strftime lib now_utc)) acc label days_back
          = Inr (record_run d (name acc) label (strftime lib now_utc), no_effects))"
proof (intro conjI impI)
  show "case post_period_summary lib slack now_utc d acc label days_back of
            Inl e \<Rightarrow> False
          | Inr (d', eff) \<Rightarrow>
              d' = record_run d (name acc) label (strftime lib now_utc)
              \<and> length (posts eff) = 1
              \<and> warnings eff =
                  (case slack (hd (posts eff)) of
                     Responded ok status_code text \<Rightarrow>
                       if ok then [] else [Webhook_responded status_code text]
                   | Raised e \<Rightarrow> [Post_failed e])"
    using assms
    by (auto simp add: post_period_summary_def Let_def post_payload_def
        split: post_outcome.splits)
  show "last_run_row (character_summary_runs
          (record_run d (name acc) label (strftime lib now_utc))) (name acc) label
      = Some (strftime lib now_utc)"
    by (rule last_run_row_record_run)
next
  assume "strptime lib (strftime lib now_utc) = Some recorded
        \<and> double_less_int (delta_days later recorded) (days_back - 1)"
  then have "not_due lib later
      (last_run_row (character_summary_runs
          (record_run d (name acc) label (strftime lib now_utc))) (name acc) label) days_back"
    by (simp add: last_run_row_record_run not_due_def)
  then show "post_period_summary lib slack' later
            (record_run d (name acc) label (strftime lib now_utc)) acc label days_back
          = Inr (record_run d (name acc) label (strftime lib now_utc), no_effects)"
    by (rule not_due_returns)
qed

theorem report_posted_and_run_recorded_witness:
  "\<not> not_due example_lib jan_8
       (last_run_row (character_summary_runs example_db) (name example_account) ''Last 7 days'') 7
   \<and> minus_days jan_8 7 = Inr 1704067200000000
   \<and> snapshot_times_in_window (character_stats_snapshots example_db) (name example_account)
        (strftime example_lib 1704067200000000) (strftime example_lib jan_8)
       = [''2024-01-02 08:00:00'', ''2024-01-07 08:00:00'']
   \<and> (case post_period_summary example_lib slack_down jan_8 example_db example_account
              ''Last 7 days'' 7 of
         Inl e \<Rightarrow> False
       | Inr (d', eff) \<Rightarrow>
           d' = record_run example_db ''main'' ''Last 7 days'' ''2024-01-08 00:00:00''
           \<and> length (posts eff) = 1
           \<and> warnings eff = [Post_failed ''connection refused''])
   \<and> (case post_period_summary example_lib slack_rejects jan_8 example_db example_account
              ''Last 7 days'' 7 of
         Inl e \<Rightarrow> False
       | Inr (d', eff) \<Rightarrow>
           d' = record_run example_db ''main'' ''Last 7 days'' ''2024-01-08 00:00:00''
           \<and> length (posts eff) = 1
           \<and> warnings eff = [Webhook_responded 404 ''no_service''])
   \<and> strptime example_lib ''2024-01-08 00:00:00'' = Some jan_8
   \<and> delta_days jan_9 jan_8 = (2 ^ 52, - 52)
   \<and> double_less_int (delta_days jan_9 jan_8) (7 - 1)
   \<and> post_period_summary example_lib slack_ok jan_9
        (record_run example_db ''main'' ''Last 7 days'' ''2024-01-08 00:00:00'') example_account
        ''Last 7 days'' 7
       = Inr (record_run example_db ''main'' ''Last 7 days'' ''2024-01-08 00:00:00'', no_effects)"
proof -
  have nm: "name example_account = ''main''" by (simp add: example_account_def)
  have due: "\<not> not_due example_lib jan_8
       (last_run_row (character_summary_runs example_db) (name example_account) ''Last 7 days'') 7"
    by code_simp
  have start: "minus_days jan_8 7 = Inr 1704067200000000" by code_simp
  have win: "snapshot_times_in_window (character_stats_snapshots example_db)
      (name example_account) (strftime example_lib 1704067200000000) (strftime example_lib jan_8)
      = [''2024-01-02 08:00:00'', ''2024-01-07 08:00:00'']" by code_simp
  have len: "2 \<le> length [''2024-01-02 08:00:00'', ''2024-01-07 08:00:00'']" by simp
  have changed: "\<not> nothing_to_report
      (period_diff
         (names_before (character_stats_snapshots example_db) (name example_account)
            (hd [''2024-01-02 08:00:00'', ''2024-01-07 08:00:00'']))
         (load_character_batch (character_stats_snapshots example_db) (name example_account)
            (hd [''2024-01-02 08:00:00'', ''2024-01-07 08:00:00'']))
         (load_character_batch (character_stats_snapshots example_db) (name example_account)
            (last [''2024-01-02 08:00:00'', ''2024-01-07 08:00:00''])))
      (total_line
         (load_character_batch (character_stats_snapshots example_db) (name example_account)
            (hd [''2024-01-02 08:00:00'', ''2024-01-07 08:00:00'']))
         (load_character_batch (character_stats_snapshots example_db) (name example_account)
            (last [''2024-01-02 08:00:00'', ''2024-01-07 08:00:00''])))" by code_simp
  have now_str: "strftime example_lib jan_8 = ''2024-01-08 00:00:00''" by code_simp
  have reparsed: "strptime example_lib ''2024-01-08 00:00:00'' = Some jan_8" by code_simp
  have elapsed: "delta_days jan_9 jan_8 = (2 ^ 52, - 52)" by code_simp
  have soon: "double_less_int (delta_days jan_9 jan_8) (7 - 1)" by code_simp
  show ?thesis
    using report_posted_and_run_recorded [OF due start win len changed,
        of slack_down jan_8 jan_9 slack_ok]
      report_posted_and_run_recorded [OF due start win len changed,
        of slack_rejects jan_8 jan_9 slack_ok]
      due start win now_str reparsed elapsed soon nm
    by (simp add: slack_down_def slack_rejects_def split: sum.splits prod.splits)
qed

end
